theory Spec2Isabelle
  imports Main
begin

section \<open>Initiative effects: construction and attachment (ieffect.py)\<close>

text \<open>
  A shallow embedding of \<open>IEffect.run\<close> and \<open>LegacyIEffect.run\<close> of
  \<open>cogs5e/models/automation/effects/ieffect.py\<close>. The two methods share, line for
  line, the blocks that resolve the duration and the description and, for a target with a
  combatant, the blocks marked \<open># concentration spells\<close>, \<open># stacking\<close>,
  \<open># parenting\<close>, \<open># add\<close> and \<open># save as\<close>. Each block is one
  definition here, and the two \<open>run\<close> functions compose them in the order of the source.
\<close>

subsection \<open>Data\<close>

text \<open>
  \<open>init.InitiativeEffect\<close> is not part of the file; its attributes are those the
  file passes to \<open>InitiativeEffect.new\<close> or assigns, and the parent back-reference.
  An effect object is identified by \<open>e_id\<close>, a combatant by \<open>c_id\<close>, and a
  reference to an object is its identifier. The payload (effect arguments, passive effects,
  attacks, buttons) is opaque to the file and carried as text.
\<close>

record effect =
  e_combat :: "nat option"
  e_combatant :: "nat option"
  e_id :: nat
  e_name :: string
  e_duration :: "int option"
  e_remaining :: "int option"
  e_effect_args :: "string option"
  e_passive_effects :: "string option"
  e_attacks :: "string list"
  e_buttons :: "string list"
  e_end_on_turn_end :: bool
  e_concentration :: bool
  e_desc :: "string option"
  e_parent :: "nat option"

record combatant =
  c_id :: nat
  c_combat :: nat
  c_effects :: "effect list"

text \<open>
  \<open>autoctx.target\<close> is \<open>None\<close> or an automation target; the target's
  \<open>combatant\<close> is \<open>None\<close> (a detached context) or the combatant that
  \<open>autoctx.target.target\<close> then is.
\<close>

datatype automation_target = AutomationTarget (combatant: "combatant option")

text \<open>
  A value of the variable table \<open>autoctx.metavars\<close>: an \<open>IEffectMetaVar\<close>
  holding its \<open>_effect\<close>, Python's \<open>None\<close>, or any other object, of which the
  file reads only \<open>type(v).__name__\<close>.
\<close>

datatype metavar = IEffectMetaVar effect | NoneValue | OtherValue string

text \<open>
  \<open>self.duration\<close>: an integer or \<open>None\<close>, or a string to be evaluated
  (\<open>isinstance(self.duration, str)\<close>).
\<close>

datatype duration_expr = Literal "int option" | Expression string

datatype error =
    TargetException string
  | AutomationException string
  | InvalidArgument string

text \<open>The attributes \<open>IEffect\<close> and \<open>LegacyIEffect\<close> have in common.\<close>

record ieffect_base =
  name :: string
  duration :: duration_expr
  concentration :: bool
  desc :: "string option"
  stacking :: bool
  save_as :: "string option"
  parent :: "string option"

record legacy_ieffect = ieffect_base +
  legacy_effects :: string
  tick_on_end :: bool

record ieffect = ieffect_base +
  effects :: "string option"
  attacks :: "string list"
  buttons :: "string list"
  end_on_turn_end :: bool

text \<open>
  The automation context: the target, the caster, the caster's tracked concentration
  effect, the variable table, the \<open>dur\<close> argument of \<open>autoctx.args\<close> when the
  caller gave one, and the queue of messages. The two methods never read the caster; the
  statements about the guard name it.
\<close>

record autoctx =
  target :: "automation_target option"
  caster :: nat
  conc_effect :: "effect option"
  metavars :: "string \<rightharpoonup> metavar"
  args_dur :: "int option"
  queue :: "string list"

text \<open>
  The collaborators that the file calls and does not define, as parameters: the
  expression evaluator (\<open>None\<close> when \<open>parse_intexpression\<close> raises), the
  annotator, the payload resolvers, the identifier that \<open>InitiativeEffect.new\<close> draws,
  the rendering \<open>get_str(description=False)\<close>, and \<open>Combatant.add_effect\<close>,
  which returns the combatant after the call and the \<open>conc_conflict\<close> entry of its
  result.
\<close>

record collaborators =
  parse_intexpression :: "string \<Rightarrow> int option"
  parse_annostr :: "string \<Rightarrow> string"
  resolve_effects :: "string \<Rightarrow> string"
  resolve_attack :: "string \<Rightarrow> string"
  resolve_button :: "string \<Rightarrow> string"
  default_passive_effect :: string
  create_effect_id :: nat
  get_str :: "effect \<Rightarrow> string"
  add_effect :: "combatant \<Rightarrow> effect \<Rightarrow> combatant \<times> effect list"

text \<open>
  The calls a run makes on the effect and on the target, in program order:
  \<open>effect.set_parent(parent_effect)\<close> and \<open>target.add_effect(effect)\<close>, each with
  its arguments as they are at the call.
\<close>

datatype call = SetParent effect effect | AddEffect combatant effect

text \<open>
  What a run that returns leaves behind: the \<open>IEffectResult\<close> (the effect and the
  concentration conflicts), the context after the run, and the calls made. A run that raises
  has changed neither the context nor the target: every \<open>raise\<close> of the file precedes
  the first call of \<open>add_effect\<close>, of \<open>queue\<close> and the assignment to
  \<open>metavars\<close>.
\<close>

record outcome =
  effect :: effect
  conc_conflict :: "effect list"
  ctx_after :: autoctx
  calls :: "call list"

subsection \<open>Strings\<close>

definition digit_char :: "nat \<Rightarrow> char" where
  "digit_char d = ''0123456789'' ! d"

text \<open>Python's \<open>str\<close> of a non-negative integer: decimal, no leading zero.\<close>

fun str :: "nat \<Rightarrow> string" where
  "str n = (if n < 10 then [digit_char n] else str (n div 10) @ [digit_char (n mod 10)])"

declare str.simps [simp del]

text \<open>The f-string \<open>f"{original_name} x{count}"\<close>.\<close>

definition stack_name :: "string \<Rightarrow> nat \<Rightarrow> string" where
  "stack_name original_name count = original_name @ '' x'' @ str count"

text \<open>\<open>sep.join(xs)\<close>.\<close>

fun join :: "string \<Rightarrow> string list \<Rightarrow> string" where
  "join sep [] = []"
| "join sep [x] = x"
| "join sep (x # y # ys) = x @ sep @ join sep (y # ys)"

text \<open>Two counts never give the same decimal text, hence never the same stack name.\<close>

lemma digit_char_inj: "a < 10 \<Longrightarrow> b < 10 \<Longrightarrow> digit_char a = digit_char b \<Longrightarrow> a = b"
proof -
  assume a: "a < 10" and b: "b < 10" and e: "digit_char a = digit_char b"
  have d: "distinct ''0123456789''" by simp
  have l: "length ''0123456789'' = 10" by simp
  from e have "''0123456789'' ! a = ''0123456789'' ! b" by (simp add: digit_char_def)
  with d a b l show "a = b" by (metis nth_eq_iff_index_eq)
qed

lemma str_nonempty: "str n \<noteq> []"
  by (subst str.simps) simp

lemma str_inj: "str m = str n \<Longrightarrow> m = n"
proof (induction m arbitrary: n rule: str.induct)
  case (1 m)
  show ?case
  proof (cases "m < 10")
    case True
    note m = this
    show ?thesis
    proof (cases "n < 10")
      case True
      with m "1.prems" show ?thesis
        by (subst (asm) str.simps, subst (asm) (2) str.simps) (simp add: digit_char_inj)
    next
      case False
      have "str n = str (n div 10) @ [digit_char (n mod 10)]"
        using False by (subst str.simps) simp
      moreover have "str m = [digit_char m]" using m by (subst str.simps) simp
      ultimately show ?thesis using "1.prems" str_nonempty [of "n div 10"] by simp
    qed
  next
    case False
    note m = this
    have sm: "str m = str (m div 10) @ [digit_char (m mod 10)]"
      using m by (subst str.simps) simp
    show ?thesis
    proof (cases "n < 10")
      case True
      then have "str n = [digit_char n]" by (subst str.simps) simp
      with sm "1.prems" str_nonempty [of "m div 10"] show ?thesis by simp
    next
      case False
      then have sn: "str n = str (n div 10) @ [digit_char (n mod 10)]"
        by (subst str.simps) simp
      from sm sn "1.prems" have e1: "str (m div 10) = str (n div 10)"
        and e2: "digit_char (m mod 10) = digit_char (n mod 10)" by simp_all
      from "1.IH" [OF m e1] have "m div 10 = n div 10" .
      moreover from e2 have "m mod 10 = n mod 10" by (simp add: digit_char_inj)
      ultimately show ?thesis by (metis div_mult_mod_eq)
    qed
  qed
qed

lemma stack_name_inj [simp]: "stack_name n j = stack_name n k \<longleftrightarrow> j = k"
  by (auto simp: stack_name_def dest: str_inj)

subsection \<open>Collaborators modelled from the specification\<close>

text \<open>
  Modelled from the spec: \<open>Combatant.get_effect(name, strict=True)\<close> is missing from
  the sources. The specification describes a strict name match, case-sensitive and exact,
  against the effects attached to the target; the result is the first such effect or
  \<open>None\<close>.
\<close>

definition get_effect :: "combatant \<Rightarrow> string \<Rightarrow> effect option" where
  "get_effect t n = find (\<lambda>e. e_name e = n) (c_effects t)"

text \<open>
  Modelled from the spec: \<open>InitiativeEffect.new\<close> is missing from the sources. It
  builds the effect from its keyword arguments, with a new identifier, the remaining
  duration equal to the duration, and no parent.
\<close>

definition InitiativeEffect_new ::
  "collaborators \<Rightarrow> nat option \<Rightarrow> nat option \<Rightarrow> string \<Rightarrow> int option \<Rightarrow> string option \<Rightarrow>
   string option \<Rightarrow> string list \<Rightarrow> string list \<Rightarrow> bool \<Rightarrow> bool \<Rightarrow> string option \<Rightarrow> effect" where
  "InitiativeEffect_new w combat' combatant' name' duration' effect_args' passive_effects'
      attacks' buttons' end_on_turn_end' concentration' desc' =
     \<lparr>e_combat = combat', e_combatant = combatant', e_id = create_effect_id w,
      e_name = name', e_duration = duration', e_remaining = duration',
      e_effect_args = effect_args', e_passive_effects = passive_effects',
      e_attacks = attacks', e_buttons = buttons',
      e_end_on_turn_end = end_on_turn_end', e_concentration = concentration',
      e_desc = desc', e_parent = None\<rparr>"

text \<open>
  Modelled from the spec: \<open>InitiativeEffect.set_parent\<close> is missing from the sources.
  It assigns the parent to \<open>effect.parent\<close> as a back-reference; the children of the
  parent are kept by the attachment collaborator.
\<close>

definition set_parent :: "effect \<Rightarrow> effect \<Rightarrow> effect" where
  "set_parent e p = e\<lparr>e_parent := Some (e_id p)\<rparr>"

text \<open>
  Modelled from the spec: \<open>autoctx.args.last("dur", duration, int)\<close> is missing from
  the sources. The override duration of the caller's arguments, when present, takes
  precedence over the default it is given.
\<close>

definition args_last_dur :: "autoctx \<Rightarrow> int option \<Rightarrow> int option" where
  "args_last_dur autoctx dflt = (case args_dur autoctx of Some d \<Rightarrow> Some d | None \<Rightarrow> dflt)"

subsection \<open>The blocks of \<open>run\<close>\<close>

text \<open>
  The exceptions that the two methods raise, with their messages: for a missing target
  (lines 220 to 223), for a duration that does not evaluate (line 229), from the guard of
  the block \<open># concentration spells\<close> (line 268) and from the block
  \<open># parenting\<close> (lines 287 to 290).
\<close>

definition target_exception :: error where
  "target_exception = TargetException
     (''Tried to add an effect without a target! Make sure all IEffect effects are inside '' @
      ''of a Target effect.'')"

definition guard_error :: error where
  "guard_error =
     InvalidArgument ''Concentration spells cannot add concentration effects to the caster.''"

definition parent_error :: "string \<Rightarrow> string \<Rightarrow> error" where
  "parent_error p type_name =
     InvalidArgument (''Could not set IEffect parent: The variable `'' @ p @
        ''` is not an IEffectMetaVar (got `'' @ type_name @ ''`).'')"

definition duration_error :: "string \<Rightarrow> error" where
  "duration_error s = AutomationException (s @ '' is not an integer (in effect duration)'')"

text \<open>
  Lines 225 to 231 (62 to 68): a string duration is evaluated, and any exception of the
  evaluator becomes an \<open>AutomationException\<close>; any other duration is taken as it is.
\<close>

definition resolve_duration :: "collaborators \<Rightarrow> duration_expr \<Rightarrow> error + int option" where
  "resolve_duration w d =
     (case d of
        Expression s \<Rightarrow>
          (case parse_intexpression w s of
             Some n \<Rightarrow> Inr (Some n)
           | None \<Rightarrow> Inl (duration_error s))
      | Literal v \<Rightarrow> Inr v)"

text \<open>
  Lines 233 to 238 (70 to 75). \<open>if self.desc\<close> is false for \<open>None\<close> and for the
  empty string.
\<close>

definition resolve_desc :: "collaborators \<Rightarrow> string option \<Rightarrow> string option" where
  "resolve_desc w d =
     (case d of
        None \<Rightarrow> None
      | Some s \<Rightarrow>
          if s = [] then None
          else (let desc' = parse_annostr w s
                in if length desc' > 500 then Some (take 500 desc' @ ''...'') else Some desc'))"

text \<open>
  Lines 265 to 269 (93 to 97), \<open># concentration spells\<close>: the value is the error raised
  or \<open>conc_parent\<close>. An effect object is true in a condition (the class defines
  neither \<open>__bool__\<close> nor \<open>__len__\<close>), so \<open>if autoctx.conc_effect\<close> tests for
  \<open>None\<close>; \<open>is\<close> compares the identity of the two combatants.
\<close>

definition concentration_spells ::
  "'a ieffect_base_scheme \<Rightarrow> autoctx \<Rightarrow> combatant \<Rightarrow> error + effect option" where
  "concentration_spells self autoctx t =
     (case conc_effect autoctx of
        None \<Rightarrow> Inr None
      | Some ce \<Rightarrow>
          if e_combatant ce = Some (c_id t) \<and> concentration self
          then Inl guard_error
          else Inr (Some ce))"

lemma get_effect_Some: "get_effect t n = Some e \<Longrightarrow> e \<in> set (c_effects t) \<and> e_name e = n"
  unfolding get_effect_def by (auto simp: find_Some_iff)

lemma get_effect_None: "get_effect t n = None \<longleftrightarrow> (\<forall>e \<in> set (c_effects t). e_name e \<noteq> n)"
  unfolding get_effect_def by (auto simp: find_None_iff)

text \<open>
  Lines 279 to 281 (107 to 109): the loop that counts up from the current count while an
  effect of the target has the name under test. The value is the count at which it stops.
\<close>

function (sequential) stack_count :: "combatant \<Rightarrow> string \<Rightarrow> nat \<Rightarrow> nat" where
  "stack_count t original_name count =
     (if get_effect t (stack_name original_name count) \<noteq> None
      then stack_count t original_name (count + 1)
      else count)"
  by pat_completeness auto

text \<open>
  The loop ends: the attached effects whose name is a stack name of a count not yet
  tested become fewer at each turn.
\<close>

definition later_names :: "combatant \<Rightarrow> string \<Rightarrow> nat \<Rightarrow> effect set" where
  "later_names t n c = {e \<in> set (c_effects t). \<exists>k\<ge>c. e_name e = stack_name n k}"

lemma later_names_decr:
  assumes "get_effect t (stack_name n c) = Some y"
  shows "card (later_names t n (Suc c)) < card (later_names t n c)"
proof -
  from assms have e: "y \<in> set (c_effects t)" "e_name y = stack_name n c"
    using get_effect_Some by blast+
  have 1: "y \<in> later_names t n c" using e unfolding later_names_def by blast
  have 2: "y \<notin> later_names t n (Suc c)" using e unfolding later_names_def by simp
  have 3: "later_names t n (Suc c) \<subseteq> later_names t n c"
    unfolding later_names_def using Suc_leD by auto
  have 4: "finite (later_names t n c)" unfolding later_names_def by simp
  from 1 2 3 have "later_names t n (Suc c) \<subset> later_names t n c" by blast
  with 4 show ?thesis by (rule psubset_card_mono)
qed

termination stack_count
  by (relation "measure (\<lambda>(t, n, c). card (later_names t n c))")
     (auto intro: later_names_decr)

declare stack_count.simps [simp del]

text \<open>
  Lines 271 to 281 (99 to 109), \<open># stacking\<close>: the value is the effect after the
  block and \<open>stack_parent\<close>. Without \<open>self.stacking\<close> the target is not searched.
\<close>

definition stacking_block ::
  "'a ieffect_base_scheme \<Rightarrow> combatant \<Rightarrow> effect \<Rightarrow> effect \<times> effect option" where
  "stacking_block self t effect0 =
     (if stacking self then
        (case get_effect t (e_name effect0) of
           None \<Rightarrow> (effect0, None)
         | Some sp \<Rightarrow>
             (let original_name = e_name effect0;
                  count = stack_count t original_name 2
              in (effect0\<lparr>e_desc := None, e_duration := Some (- 1), e_remaining := Some (- 1),
                    e_concentration := False, e_name := stack_name original_name count\<rparr>,
                  Some sp)))
      else (effect0, None))"

text \<open>
  Lines 283 to 292 (111 to 120), \<open># parenting\<close>: the value is the error raised or
  \<open>explicit_parent\<close>. \<open>metavars.get(self.parent, None) is not None\<close> is false for
  a missing name and for a name bound to \<open>None\<close>.
\<close>

definition parenting :: "'a ieffect_base_scheme \<Rightarrow> autoctx \<Rightarrow> error + effect option" where
  "parenting self autoctx =
     (case parent self of
        None \<Rightarrow> Inr None
      | Some p \<Rightarrow>
          (case metavars autoctx p of
             None \<Rightarrow> Inr None
           | Some NoneValue \<Rightarrow> Inr None
           | Some (IEffectMetaVar e) \<Rightarrow> Inr (Some e)
           | Some (OtherValue type_name) \<Rightarrow> Inl (parent_error p type_name)))"

text \<open>
  Python's \<open>a or b\<close> on effects and \<open>None\<close>: the first operand that is not
  \<open>None\<close>.
\<close>

definition py_or :: "effect option \<Rightarrow> effect option \<Rightarrow> effect option" where
  "py_or a b = (case a of Some x \<Rightarrow> Some x | None \<Rightarrow> b)"

text \<open>
  Lines 262 to 305 (90 to 133): the branch of a target with a combatant, from the new
  effect on.
\<close>

definition attach ::
  "collaborators \<Rightarrow> 'a ieffect_base_scheme \<Rightarrow> autoctx \<Rightarrow> combatant \<Rightarrow> effect \<Rightarrow> error + outcome" where
  "attach w self autoctx t effect0 =
     (case concentration_spells self autoctx t of
        Inl err \<Rightarrow> Inl err
      | Inr conc_parent \<Rightarrow>
          (case stacking_block self t effect0 of
             (effect1, stack_parent) \<Rightarrow>
               (case parenting self autoctx of
                  Inl err \<Rightarrow> Inl err
                | Inr explicit_parent \<Rightarrow>
                    (let parent_effect = py_or stack_parent (py_or explicit_parent conc_parent);
                         effect2 = (case parent_effect of
                                      Some p \<Rightarrow> set_parent effect1 p | None \<Rightarrow> effect1);
                         calls1 = (case parent_effect of
                                     Some p \<Rightarrow> [SetParent effect1 p] | None \<Rightarrow> []);
                         effect_result = add_effect w t effect2;
                         queue1 = queue autoctx @ [''**Effect**: '' @ get_str w effect2];
                         queue2 = (if snd effect_result \<noteq> []
                                   then queue1 @ [''**Concentration**: dropped '' @
                                          join '', '' (map e_name (snd effect_result))]
                                   else queue1);
                         metavars2 = (case save_as self of
                                        Some v \<Rightarrow> (metavars autoctx)(v \<mapsto> IEffectMetaVar effect2)
                                      | None \<Rightarrow> metavars autoctx)
                     in Inr \<lparr>effect = effect2, conc_conflict = snd effect_result,
                             ctx_after = autoctx\<lparr>target :=
                                 Some (AutomationTarget (Some (fst effect_result))),
                               metavars := metavars2, queue := queue2\<rparr>,
                             calls = calls1 @ [AddEffect t effect2]\<rparr>))))"

text \<open>\<open>IEffect.run\<close>, lines 217 to 321.\<close>

definition IEffect_run :: "collaborators \<Rightarrow> ieffect \<Rightarrow> autoctx \<Rightarrow> error + outcome" where
  "IEffect_run w self autoctx =
     (case target autoctx of
        None \<Rightarrow> Inl target_exception
      | Some tgt \<Rightarrow>
          (case resolve_duration w (duration self) of
             Inl err \<Rightarrow> Inl err
           | Inr duration0 \<Rightarrow>
               (let desc1 = resolve_desc w (desc self);
                    duration1 = args_last_dur autoctx duration0;
                    effects1 = (case effects self of
                                  Some e \<Rightarrow> resolve_effects w e
                                | None \<Rightarrow> default_passive_effect w);
                    attacks1 = map (resolve_attack w) (attacks self);
                    buttons1 = map (resolve_button w) (buttons self)
                in (case combatant tgt of
                      Some t \<Rightarrow>
                        attach w self autoctx t
                          (InitiativeEffect_new w (Some (c_combat t)) (Some (c_id t)) (name self)
                             duration1 None (Some effects1) attacks1 buttons1
                             (end_on_turn_end self) (concentration self) desc1)
                    | None \<Rightarrow>
                        (let effect1 = InitiativeEffect_new w None None (name self)
                               duration1 None (Some effects1) attacks1 buttons1
                               (end_on_turn_end self) (concentration self) desc1
                         in Inr \<lparr>effect = effect1, conc_conflict = [],
                                 ctx_after = autoctx\<lparr>queue := queue autoctx @
                                   [''**Effect**: '' @ get_str w effect1]\<rparr>,
                                 calls = []\<rparr>)))))"

text \<open>\<open>LegacyIEffect.run\<close>, lines 54 to 147.\<close>

definition LegacyIEffect_run ::
  "collaborators \<Rightarrow> legacy_ieffect \<Rightarrow> autoctx \<Rightarrow> error + outcome" where
  "LegacyIEffect_run w self autoctx =
     (case target autoctx of
        None \<Rightarrow> Inl target_exception
      | Some tgt \<Rightarrow>
          (case resolve_duration w (duration self) of
             Inl err \<Rightarrow> Inl err
           | Inr duration0 \<Rightarrow>
               (let desc1 = resolve_desc w (desc self);
                    duration1 = args_last_dur autoctx duration0
                in (case combatant tgt of
                      Some t \<Rightarrow>
                        attach w self autoctx t
                          (InitiativeEffect_new w (Some (c_combat t)) (Some (c_id t)) (name self)
                             duration1 (Some (parse_annostr w (legacy_effects self))) None [] []
                             (tick_on_end self) (concentration self) desc1)
                    | None \<Rightarrow>
                        (let effect1 = InitiativeEffect_new w None None (name self)
                               duration1 (Some (parse_annostr w (legacy_effects self))) None [] []
                               (tick_on_end self) (concentration self) desc1
                         in Inr \<lparr>effect = effect1, conc_conflict = [],
                                 ctx_after = autoctx\<lparr>queue := queue autoctx @
                                   [''**Effect**: '' @ get_str w effect1]\<rparr>,
                                 calls = []\<rparr>)))))"

subsection \<open>The candidates for the parent\<close>

text \<open>The parents assigned by the calls of \<open>set_parent\<close>, in order.\<close>

definition parent_calls :: "call list \<Rightarrow> effect list" where
  "parent_calls cs = concat (map (\<lambda>c. case c of SetParent e p \<Rightarrow> [p] | AddEffect t e \<Rightarrow> []) cs)"

text \<open>
  The three candidates as the specification names them: the effect that the stacking step
  matched (only a stacking effect is matched, strictly by its name), the effect behind the
  proxy that the variable table holds for \<open>parent\<close>, and the tracked concentration
  effect \<open>conc_effect autoctx\<close>.
\<close>

definition stack_parent_of :: "'a ieffect_base_scheme \<Rightarrow> combatant \<Rightarrow> effect option" where
  "stack_parent_of self t = (if stacking self then get_effect t (name self) else None)"

definition explicit_parent_of :: "'a ieffect_base_scheme \<Rightarrow> autoctx \<Rightarrow> effect option" where
  "explicit_parent_of self autoctx =
     (case parent self of
        None \<Rightarrow> None
      | Some p \<Rightarrow> (case metavars autoctx p of Some (IEffectMetaVar e) \<Rightarrow> Some e | _ \<Rightarrow> None))"

subsection \<open>Concrete inputs\<close>

text \<open>
  Collaborators, effects, a combatant, an \<open>IEffect\<close> and a context to run the
  definitions on. The evaluator of these collaborators knows the expression \<open>3\<close> and
  fails on every other one; their \<open>add_effect\<close> appends the effect and reports no
  conflict.
\<close>

definition ex_collaborators :: collaborators where
  "ex_collaborators =
     \<lparr>parse_intexpression = (\<lambda>s. if s = ''3'' then Some 3 else None),
      parse_annostr = (\<lambda>s. s), resolve_effects = (\<lambda>s. s), resolve_attack = (\<lambda>s. s),
      resolve_button = (\<lambda>s. s), default_passive_effect = [], create_effect_id = 9,
      get_str = e_name,
      add_effect = (\<lambda>t e. (t\<lparr>c_effects := c_effects t @ [e]\<rparr>, []))\<rparr>"

definition ex_effect :: "nat \<Rightarrow> nat \<Rightarrow> string \<Rightarrow> bool \<Rightarrow> effect" where
  "ex_effect i c n conc =
     \<lparr>e_combat = Some 0, e_combatant = Some c, e_id = i, e_name = n, e_duration = Some 10,
      e_remaining = Some 10, e_effect_args = None, e_passive_effects = None, e_attacks = [],
      e_buttons = [], e_end_on_turn_end = False, e_concentration = conc, e_desc = None,
      e_parent = None\<rparr>"

definition ex_combatant :: "nat \<Rightarrow> effect list \<Rightarrow> combatant" where
  "ex_combatant i es = \<lparr>c_id = i, c_combat = 0, c_effects = es\<rparr>"

definition ex_ieffect :: "string \<Rightarrow> ieffect" where
  "ex_ieffect n =
     \<lparr>name = n, duration = Literal (Some 3), concentration = False, desc = None,
      stacking = False, save_as = None, parent = None, effects = None, attacks = [],
      buttons = [], end_on_turn_end = False\<rparr>"

definition ex_autoctx :: "combatant option \<Rightarrow> autoctx" where
  "ex_autoctx t =
     \<lparr>target = Some (AutomationTarget t), caster = 1, conc_effect = None,
      metavars = Map.empty, args_dur = None, queue = []\<rparr>"

lemmas ex_defs = ex_collaborators_def ex_effect_def ex_combatant_def ex_ieffect_def ex_autoctx_def

lemmas run_defs = IEffect_run_def attach_def resolve_duration_def resolve_desc_def
  args_last_dur_def InitiativeEffect_new_def concentration_spells_def stacking_block_def
  parenting_def py_or_def set_parent_def get_effect_def Let_def
  target_exception_def duration_error_def guard_error_def parent_error_def

subsection \<open>How a run decomposes\<close>

lemma attach_Inr:
  assumes "attach w self autoctx t e0 = Inr r"
  obtains cp ep e1 sp where
    "concentration_spells self autoctx t = Inr cp"
    "parenting self autoctx = Inr ep"
    "stacking_block self t e0 = (e1, sp)"
    "effect r = (case py_or sp (py_or ep cp) of Some p \<Rightarrow> set_parent e1 p | None \<Rightarrow> e1)"
    "calls r = (case py_or sp (py_or ep cp) of Some p \<Rightarrow> [SetParent e1 p] | None \<Rightarrow> [])
               @ [AddEffect t (effect r)]"
    "conc_conflict r = snd (add_effect w t (effect r))"
    "metavars (ctx_after r) = (case save_as self of
                                 Some v \<Rightarrow> (metavars autoctx)(v \<mapsto> IEffectMetaVar (effect r))
                               | None \<Rightarrow> metavars autoctx)"
    "target (ctx_after r) = Some (AutomationTarget (Some (fst (add_effect w t (effect r)))))"
proof -
  from assms obtain cp where cp: "concentration_spells self autoctx t = Inr cp"
    by (cases "concentration_spells self autoctx t") (simp_all add: attach_def)
  from assms cp obtain ep where ep: "parenting self autoctx = Inr ep"
    by (cases "parenting self autoctx") (simp_all add: attach_def split: prod.splits)
  obtain e1 sp where sb: "stacking_block self t e0 = (e1, sp)"
    by (cases "stacking_block self t e0")
  note defs = attach_def Let_def
  have 1: "effect r = (case py_or sp (py_or ep cp) of Some p \<Rightarrow> set_parent e1 p | None \<Rightarrow> e1)"
    using assms cp ep sb by (auto simp: defs)
  have 2: "calls r = (case py_or sp (py_or ep cp) of Some p \<Rightarrow> [SetParent e1 p] | None \<Rightarrow> [])
               @ [AddEffect t (effect r)]"
    using assms cp ep sb by (auto simp: defs)
  have 3: "conc_conflict r = snd (add_effect w t (effect r))"
    using assms cp ep sb by (auto simp: defs)
  have 4: "metavars (ctx_after r) = (case save_as self of
                                 Some v \<Rightarrow> (metavars autoctx)(v \<mapsto> IEffectMetaVar (effect r))
                               | None \<Rightarrow> metavars autoctx)"
    using assms cp ep sb by (auto simp: defs split: option.splits)
  have 5: "target (ctx_after r) = Some (AutomationTarget (Some (fst (add_effect w t (effect r)))))"
    using assms cp ep sb by (auto simp: defs)
  from cp ep sb 1 2 3 4 5 show thesis by (rule that)
qed

lemma attach_succeeds:
  assumes "concentration_spells self autoctx t = Inr cp" "parenting self autoctx = Inr ep"
  shows "\<exists>r. attach w self autoctx t e0 = Inr r"
  using assms by (cases "stacking_block self t e0") (simp add: attach_def Let_def)

lemma attach_guard:
  "concentration_spells self autoctx t = Inl err \<Longrightarrow> attach w self autoctx t e0 = Inl err"
  by (simp add: attach_def)

lemma attach_parenting:
  "concentration_spells self autoctx t = Inr cp \<Longrightarrow> parenting self autoctx = Inl err
     \<Longrightarrow> attach w self autoctx t e0 = Inl err"
  by (cases "stacking_block self t e0") (simp add: attach_def)

lemma IEffect_run_attached:
  assumes "target autoctx = Some tgt" "combatant tgt = Some t"
  shows "IEffect_run w self autoctx =
     (case resolve_duration w (duration self) of
        Inl err \<Rightarrow> Inl err
      | Inr d \<Rightarrow> attach w self autoctx t
          (InitiativeEffect_new w (Some (c_combat t)) (Some (c_id t)) (name self)
             (args_last_dur autoctx d) None
             (Some (case effects self of Some e \<Rightarrow> resolve_effects w e
                    | None \<Rightarrow> default_passive_effect w))
             (map (resolve_attack w) (attacks self)) (map (resolve_button w) (buttons self))
             (end_on_turn_end self) (concentration self) (resolve_desc w (desc self))))"
  using assms by (simp add: IEffect_run_def Let_def split: sum.splits)

lemma LegacyIEffect_run_attached:
  assumes "target autoctx = Some tgt" "combatant tgt = Some t"
  shows "LegacyIEffect_run w self autoctx =
     (case resolve_duration w (duration self) of
        Inl err \<Rightarrow> Inl err
      | Inr d \<Rightarrow> attach w self autoctx t
          (InitiativeEffect_new w (Some (c_combat t)) (Some (c_id t)) (name self)
             (args_last_dur autoctx d) (Some (parse_annostr w (legacy_effects self))) None [] []
             (tick_on_end self) (concentration self) (resolve_desc w (desc self))))"
  using assms by (simp add: LegacyIEffect_run_def Let_def split: sum.splits)

lemma new_name [simp]: "e_name (InitiativeEffect_new w a b n d ea pe at bt ee c ds) = n"
  by (simp add: InitiativeEffect_new_def)

lemma new_parent [simp]: "e_parent (InitiativeEffect_new w a b n d ea pe at bt ee c ds) = None"
  by (simp add: InitiativeEffect_new_def)

lemma stacking_block_parent: "stacking_block self t e0 = (e1, sp) \<Longrightarrow> e_parent e1 = e_parent e0"
  by (auto simp: stacking_block_def Let_def split: if_splits option.splits)

lemma stacking_block_sp:
  "stacking_block self t e0 = (e1, sp) \<Longrightarrow> sp = (if stacking self then get_effect t (e_name e0) else None)"
  by (auto simp: stacking_block_def Let_def split: if_splits option.splits)

lemma parenting_explicit:
  "parenting self autoctx = Inr ep \<Longrightarrow> ep = explicit_parent_of self autoctx"
  by (auto simp: parenting_def explicit_parent_of_def split: option.splits metavar.splits)

lemma concentration_spells_Inr:
  "concentration_spells self autoctx t = Inr cp \<Longrightarrow> cp = conc_effect autoctx"
  by (auto simp: concentration_spells_def split: option.splits if_splits)

lemma attach_parent_priority:
  assumes "attach w self autoctx t e0 = Inr r" "e_parent e0 = None" "e_name e0 = name self"
  shows "parent_calls (calls r) =
           (case py_or (stack_parent_of self t)
                   (py_or (explicit_parent_of self autoctx) (conc_effect autoctx)) of
              Some p \<Rightarrow> [p] | None \<Rightarrow> [])"
    and "e_parent (effect r) =
           map_option e_id (py_or (stack_parent_of self t)
                   (py_or (explicit_parent_of self autoctx) (conc_effect autoctx)))"
proof -
  from assms(1) obtain cp ep e1 sp where
    cp: "concentration_spells self autoctx t = Inr cp" and
    ep: "parenting self autoctx = Inr ep" and
    sb: "stacking_block self t e0 = (e1, sp)" and
    e: "effect r = (case py_or sp (py_or ep cp) of Some p \<Rightarrow> set_parent e1 p | None \<Rightarrow> e1)" and
    c: "calls r = (case py_or sp (py_or ep cp) of Some p \<Rightarrow> [SetParent e1 p] | None \<Rightarrow> [])
               @ [AddEffect t (effect r)]"
    by (rule attach_Inr)
  have sp: "sp = stack_parent_of self t"
    using stacking_block_sp [OF sb] assms(3) by (simp add: stack_parent_of_def)
  have ep': "ep = explicit_parent_of self autoctx" using ep by (rule parenting_explicit)
  have cp': "cp = conc_effect autoctx" using cp by (rule concentration_spells_Inr)
  have p1: "e_parent e1 = None" using stacking_block_parent [OF sb] assms(2) by simp
  show "parent_calls (calls r) =
           (case py_or (stack_parent_of self t)
                   (py_or (explicit_parent_of self autoctx) (conc_effect autoctx)) of
              Some p \<Rightarrow> [p] | None \<Rightarrow> [])"
    unfolding c sp [symmetric] ep' [symmetric] cp' [symmetric]
    by (simp add: parent_calls_def split: option.splits)
  show "e_parent (effect r) =
           map_option e_id (py_or (stack_parent_of self t)
                   (py_or (explicit_parent_of self autoctx) (conc_effect autoctx)))"
    unfolding e sp [symmetric] ep' [symmetric] cp' [symmetric]
    using p1 by (simp add: set_parent_def split: option.splits)
qed

lemma stack_count_spec:
  "c \<le> stack_count t n c
   \<and> get_effect t (stack_name n (stack_count t n c)) = None
   \<and> (\<forall>j. c \<le> j \<and> j < stack_count t n c \<longrightarrow> get_effect t (stack_name n j) \<noteq> None)"
proof (induction t n c rule: stack_count.induct)
  case (1 t n c)
  show ?case
  proof (cases "get_effect t (stack_name n c) = None")
    case True
    then have "stack_count t n c = c" by (subst stack_count.simps) simp
    with True show ?thesis by auto
  next
    case False
    then have eq: "stack_count t n c = stack_count t n (c + 1)"
      by (subst stack_count.simps) simp
    from "1.IH" [OF False] have ih: "c + 1 \<le> stack_count t n (c + 1)"
      "get_effect t (stack_name n (stack_count t n (c + 1))) = None"
      "\<forall>j. c + 1 \<le> j \<and> j < stack_count t n (c + 1) \<longrightarrow> get_effect t (stack_name n j) \<noteq> None"
      by simp_all
    have "\<forall>j. c \<le> j \<and> j < stack_count t n (c + 1) \<longrightarrow> get_effect t (stack_name n j) \<noteq> None"
    proof (intro allI impI)
      fix j assume j: "c \<le> j \<and> j < stack_count t n (c + 1)"
      show "get_effect t (stack_name n j) \<noteq> None"
      proof (cases "j = c")
        case True with False show ?thesis by simp
      next
        case False
        with j have "c + 1 \<le> j \<and> j < stack_count t n (c + 1)" by simp
        with ih(3) show ?thesis by blast
      qed
    qed
    with ih(1,2) show ?thesis unfolding eq by simp
  qed
qed

lemma stacking_block_match:
  assumes "stacking self" "get_effect t (e_name e0) = Some sp"
  shows "stacking_block self t e0 =
           (e0\<lparr>e_desc := None, e_duration := Some (- 1), e_remaining := Some (- 1),
               e_concentration := False,
               e_name := stack_name (e_name e0) (stack_count t (e_name e0) 2)\<rparr>, Some sp)"
  using assms by (simp add: stacking_block_def Let_def)

lemma stacking_block_no_match:
  assumes "\<not> stacking self \<or> get_effect t (e_name e0) = None"
  shows "stacking_block self t e0 = (e0, None)"
  using assms by (auto simp: stacking_block_def)

lemma attach_effect:
  assumes "attach w self autoctx t e0 = Inr r"
  shows "\<exists>pp. effect r = (fst (stacking_block self t e0))\<lparr>e_parent := pp\<rparr>"
    and "last (calls r) = AddEffect t (effect r)"
proof -
  from assms obtain cp ep e1 sp where
    sb: "stacking_block self t e0 = (e1, sp)" and
    e: "effect r = (case py_or sp (py_or ep cp) of Some p \<Rightarrow> set_parent e1 p | None \<Rightarrow> e1)" and
    c: "calls r = (case py_or sp (py_or ep cp) of Some p \<Rightarrow> [SetParent e1 p] | None \<Rightarrow> [])
               @ [AddEffect t (effect r)]"
    by (rule attach_Inr)
  have "effect r = e1\<lparr>e_parent := (case py_or sp (py_or ep cp) of
                                      Some p \<Rightarrow> Some (e_id p) | None \<Rightarrow> e_parent e1)\<rparr>"
    unfolding e by (simp add: set_parent_def split: option.splits)
  then show "\<exists>pp. effect r = (fst (stacking_block self t e0))\<lparr>e_parent := pp\<rparr>"
    using sb by auto
  show "last (calls r) = AddEffect t (effect r)" unfolding c by simp
qed

lemma IEffect_run_attach:
  assumes "target autoctx = Some tgt" "combatant tgt = Some t"
    and "IEffect_run w self autoctx = Inr r"
  obtains d e0 where "resolve_duration w (duration self) = Inr d"
    "e0 = InitiativeEffect_new w (Some (c_combat t)) (Some (c_id t)) (name self)
             (args_last_dur autoctx d) None
             (Some (case effects self of Some e \<Rightarrow> resolve_effects w e
                    | None \<Rightarrow> default_passive_effect w))
             (map (resolve_attack w) (attacks self)) (map (resolve_button w) (buttons self))
             (end_on_turn_end self) (concentration self) (resolve_desc w (desc self))"
    "attach w self autoctx t e0 = Inr r"
  using assms by (auto simp: IEffect_run_attached split: sum.splits)

lemma IEffect_run_succeeds:
  assumes "target autoctx = Some tgt" "combatant tgt = Some t"
    and "resolve_duration w (duration self) = Inr d"
    and "concentration_spells self autoctx t = Inr cp"
    and "parenting self autoctx = Inr ep"
  shows "\<exists>r. IEffect_run w self autoctx = Inr r"
  using assms by (simp add: IEffect_run_attached attach_succeeds)

lemma IEffect_run_detached:
  assumes "target autoctx = Some tgt" "combatant tgt = None"
  shows "IEffect_run w self autoctx =
     (case resolve_duration w (duration self) of
        Inl err \<Rightarrow> Inl err
      | Inr d \<Rightarrow>
          (let effect1 = InitiativeEffect_new w None None (name self)
             (args_last_dur autoctx d) None
             (Some (case effects self of Some e \<Rightarrow> resolve_effects w e
                    | None \<Rightarrow> default_passive_effect w))
             (map (resolve_attack w) (attacks self)) (map (resolve_button w) (buttons self))
             (end_on_turn_end self) (concentration self) (resolve_desc w (desc self))
           in Inr \<lparr>effect = effect1, conc_conflict = [],
                   ctx_after = autoctx\<lparr>queue := queue autoctx @
                                 [''**Effect**: '' @ get_str w effect1]\<rparr>,
                   calls = []\<rparr>))"
  using assms by (simp add: IEffect_run_def Let_def split: sum.splits)

lemma attach_calls_member:
  assumes "attach w self autoctx t e0 = Inr r"
  shows "AddEffect t (effect r) \<in> set (calls r)"
proof -
  from assms obtain cp ep e1 sp where
    c: "calls r = (case py_or sp (py_or ep cp) of Some p \<Rightarrow> [SetParent e1 p] | None \<Rightarrow> [])
               @ [AddEffect t (effect r)]"
    by (rule attach_Inr)
  show ?thesis unfolding c by simp
qed

lemma IEffect_run_target:
  "IEffect_run w self autoctx = Inr r \<Longrightarrow> \<exists>tgt. target autoctx = Some tgt"
  by (auto simp: IEffect_run_def split: option.splits)

lemma concentration_spells_raises:
  assumes "conc_effect autoctx = Some ce" "e_combatant ce = Some (c_id t)" "concentration self"
  shows "concentration_spells self autoctx t = Inl guard_error"
  using assms by (simp add: concentration_spells_def guard_error_def)

lemma concentration_spells_passes:
  assumes "conc_effect autoctx = Some ce" "e_combatant ce \<noteq> Some (c_id t)"
  shows "concentration_spells self autoctx t = Inr (Some ce)"
  using assms by (simp add: concentration_spells_def)

lemma parenting_ok:
  assumes "\<forall>p tn. parent self = Some p \<longrightarrow> metavars autoctx p \<noteq> Some (OtherValue tn)"
  shows "parenting self autoctx = Inr (explicit_parent_of self autoctx)"
  using assms
  by (auto simp: parenting_def explicit_parent_of_def split: option.splits metavar.splits)

lemma IEffect_run_parent:
  assumes "target autoctx = Some tgt" "combatant tgt = Some t"
    and "IEffect_run w self autoctx = Inr r"
  shows "e_parent (effect r) =
           map_option e_id (py_or (stack_parent_of self t)
                   (py_or (explicit_parent_of self autoctx) (conc_effect autoctx)))"
proof -
  from assms obtain d e0 where a: "attach w self autoctx t e0 = Inr r"
    and e0: "e_parent e0 = None" "e_name e0 = name self"
    by (rule IEffect_run_attach) simp
  from attach_parent_priority(2) [OF a e0] show ?thesis .
qed

lemma concentration_spells_duration_update:
  "concentration_spells (self\<lparr>duration := x\<rparr>) autoctx t = concentration_spells self autoctx t"
  by (simp add: concentration_spells_def split: option.splits)

lemma stacking_block_duration_update:
  "stacking_block (self\<lparr>duration := x\<rparr>) t e0 = stacking_block self t e0"
  by (simp add: stacking_block_def)

lemma parenting_duration_update:
  "parenting (self\<lparr>duration := x\<rparr>) autoctx = parenting self autoctx"
  by (simp add: parenting_def)

lemma attach_duration_update:
  "attach w (self\<lparr>duration := x\<rparr>) autoctx t e0 = attach w self autoctx t e0"
  by (simp add: attach_def concentration_spells_duration_update stacking_block_duration_update
        parenting_duration_update cong: sum.case_cong prod.case_cong)

lemma new_duration [simp]:
  "e_duration (InitiativeEffect_new w a b n d ea pe at bt ee c ds) = d"
  "e_remaining (InitiativeEffect_new w a b n d ea pe at bt ee c ds) = d"
  by (simp_all add: InitiativeEffect_new_def)

lemma attach_stacking_name:
  assumes a: "attach w self autoctx t e0 = Inr r" and e0: "e_name e0 = n"
    and st: "stacking self" and m: "get_effect t n \<noteq> None"
  shows "(\<exists>k\<ge>2. e_name (effect r) = stack_name n k
            \<and> get_effect t (stack_name n k) = None
            \<and> (\<forall>j. 2 \<le> j \<and> j < k \<longrightarrow> get_effect t (stack_name n j) \<noteq> None))
       \<and> (e_name ` set (c_effects t) = {n, n @ '' x2'', n @ '' x3''}
            \<longrightarrow> e_name (effect r) = n @ '' x4'')
       \<and> (e_name ` set (c_effects t) = {n} \<longrightarrow> e_name (effect r) = n @ '' x2'')"
proof -
  from m obtain sp where sp: "get_effect t (e_name e0) = Some sp" using e0 by auto
  let ?k = "stack_count t n 2"
  from attach_effect(1) [OF a] stacking_block_match [OF st sp]
  have n: "e_name (effect r) = stack_name n ?k" using e0 by auto
  note sc = stack_count_spec [of 2 t n]
  have least: "\<And>j. 2 \<le> j \<Longrightarrow> j < ?k \<Longrightarrow> get_effect t (stack_name n j) \<noteq> None"
    using sc by blast
  have used: "\<And>m. get_effect t m \<noteq> None \<longleftrightarrow> m \<in> e_name ` set (c_effects t)"
    by (auto simp: get_effect_None)
  have s2: "stack_name n 2 = n @ '' x2''"
    and s3: "stack_name n 3 = n @ '' x3''"
    and s4: "stack_name n 4 = n @ '' x4''"
    by (simp_all add: stack_name_def str.simps digit_char_def)
  have 1: "\<exists>k\<ge>2. e_name (effect r) = stack_name n k
            \<and> get_effect t (stack_name n k) = None
            \<and> (\<forall>j. 2 \<le> j \<and> j < k \<longrightarrow> get_effect t (stack_name n j) \<noteq> None)"
    using n sc by blast
  have 2: "e_name (effect r) = n @ '' x4''"
    if h: "e_name ` set (c_effects t) = {n, n @ '' x2'', n @ '' x3''}"
  proof -
    have u2: "get_effect t (stack_name n 2) \<noteq> None" unfolding used h s2 by simp
    have u3: "get_effect t (stack_name n 3) \<noteq> None" unfolding used h s3 by simp
    have u4: "get_effect t (stack_name n 4) = None"
      using used [of "stack_name n 4"] unfolding h s4 by simp
    have "?k \<noteq> 2" "?k \<noteq> 3" using sc u2 u3 by auto
    moreover have "\<not> 4 < ?k" using least [of 4] u4 by auto
    moreover have "2 \<le> ?k" using sc by simp
    ultimately have "?k = 4" by arith
    with n s4 show ?thesis by simp
  qed
  have 3: "e_name (effect r) = n @ '' x2''" if h: "e_name ` set (c_effects t) = {n}"
  proof -
    have u2: "get_effect t (stack_name n 2) = None"
      using used [of "stack_name n 2"] unfolding h s2 by simp
    have "\<not> 2 < ?k" using least [of 2] u2 by auto
    moreover have "2 \<le> ?k" using sc by simp
    ultimately have "?k = 2" by arith
    with n s2 show ?thesis by simp
  qed
  from 1 2 3 show ?thesis by blast
qed

lemma parent_error_not_guard: "parent_error p tn \<noteq> guard_error"
  by (simp add: parent_error_def guard_error_def)

lemma parenting_cases:
  "(\<exists>ep. parenting self autoctx = Inr ep)
   \<or> (\<exists>p tn. parent self = Some p \<and> metavars autoctx p = Some (OtherValue tn)
         \<and> parenting self autoctx = Inl (parent_error p tn))"
  by (auto simp: parenting_def split: option.splits metavar.splits)

lemma detached_error:
  assumes "target autoctx = Some tgt" "combatant tgt = None"
    and "IEffect_run w self autoctx = Inl err"
  shows "\<exists>s. err = duration_error s"
  using assms(3) unfolding IEffect_run_detached [OF assms(1,2)]
  by (auto simp: resolve_duration_def Let_def split: sum.splits duration_expr.splits option.splits)

section \<open>The claims\<close>

subsection \<open>C1: parent priority\<close>

text \<open>
  C1. In a run of \<open>IEffect.run\<close> on a target with a combatant that reaches the
  selection of the parent (no block has raised, so the run returns): when the stacking
  parent is not null, the parent of the attached effect is the stacking parent, whatever the
  other two candidates are, hence also when all three are not null; when the stacking parent
  is null and the explicit parent is not, it is the explicit parent; when only the
  concentration parent is not null, it is the concentration parent; when all three are null,
  the parent stays null. In each case \<open>set_parent\<close> is called at most once, with that
  parent.
\<close>

theorem parent_priority:
  assumes "target autoctx = Some tgt" and "combatant tgt = Some t"
    and "IEffect_run w self autoctx = Inr r"
  shows "(case (stack_parent_of self t, explicit_parent_of self autoctx, conc_effect autoctx) of
            (Some sp, _, _) \<Rightarrow>
              e_parent (effect r) = Some (e_id sp) \<and> parent_calls (calls r) = [sp]
          | (None, Some ep, _) \<Rightarrow>
              e_parent (effect r) = Some (e_id ep) \<and> parent_calls (calls r) = [ep]
          | (None, None, Some cp) \<Rightarrow>
              e_parent (effect r) = Some (e_id cp) \<and> parent_calls (calls r) = [cp]
          | (None, None, None) \<Rightarrow>
              e_parent (effect r) = None \<and> parent_calls (calls r) = [])
         \<and> length (parent_calls (calls r)) \<le> 1"
proof -
  from assms obtain e0 where a: "attach w self autoctx t e0 = Inr r"
    and e0: "e_parent e0 = None" "e_name e0 = name self"
    by (auto simp: IEffect_run_attached split: sum.splits)
  note attach_parent_priority [OF a e0]
  then show ?thesis by (simp add: py_or_def split: option.splits)
qed

theorem parent_priority_witness:
  "(\<exists>r. IEffect_run ex_collaborators
          ((ex_ieffect ''Poison'')\<lparr>stacking := True, parent := Some ''p''\<rparr>)
          ((ex_autoctx (Some (ex_combatant 2 [ex_effect 5 2 ''Poison'' False])))
             \<lparr>conc_effect := Some (ex_effect 7 1 ''Hex'' True),
              metavars := [''p'' \<mapsto> IEffectMetaVar (ex_effect 6 3 ''Bless'' False)]\<rparr>) = Inr r
        \<and> e_parent (effect r) = Some 5
        \<and> parent_calls (calls r) = [ex_effect 5 2 ''Poison'' False])
   \<and> (\<exists>r. IEffect_run ex_collaborators
          ((ex_ieffect ''Poison'')\<lparr>stacking := True, parent := Some ''p''\<rparr>)
          ((ex_autoctx (Some (ex_combatant 2 [])))
             \<lparr>conc_effect := Some (ex_effect 7 1 ''Hex'' True),
              metavars := [''p'' \<mapsto> IEffectMetaVar (ex_effect 6 3 ''Bless'' False)]\<rparr>) = Inr r
        \<and> e_parent (effect r) = Some 6
        \<and> parent_calls (calls r) = [ex_effect 6 3 ''Bless'' False])
   \<and> (\<exists>r. IEffect_run ex_collaborators
          ((ex_ieffect ''Poison'')\<lparr>stacking := True, parent := Some ''p''\<rparr>)
          ((ex_autoctx (Some (ex_combatant 2 [])))
             \<lparr>conc_effect := Some (ex_effect 7 1 ''Hex'' True)\<rparr>) = Inr r
        \<and> e_parent (effect r) = Some 7
        \<and> parent_calls (calls r) = [ex_effect 7 1 ''Hex'' True])
   \<and> (\<exists>r. IEffect_run ex_collaborators
          ((ex_ieffect ''Poison'')\<lparr>stacking := True, parent := Some ''p''\<rparr>)
          (ex_autoctx (Some (ex_combatant 2 []))) = Inr r
        \<and> e_parent (effect r) = None
        \<and> parent_calls (calls r) = [])"
proof -
  let ?sp = "ex_effect 5 2 ''Poison'' False"
  let ?ep = "ex_effect 6 3 ''Bless'' False"
  let ?cp = "ex_effect 7 1 ''Hex'' True"
  let ?self = "(ex_ieffect ''Poison'')\<lparr>stacking := True, parent := Some ''p''\<rparr>"
  let ?t1 = "ex_combatant 2 [?sp]"
  let ?t2 = "ex_combatant 2 []"
  let ?c1 = "(ex_autoctx (Some ?t1))\<lparr>conc_effect := Some ?cp, metavars := [''p'' \<mapsto> IEffectMetaVar ?ep]\<rparr>"
  let ?c2 = "(ex_autoctx (Some ?t2))\<lparr>conc_effect := Some ?cp, metavars := [''p'' \<mapsto> IEffectMetaVar ?ep]\<rparr>"
  let ?c3 = "(ex_autoctx (Some ?t2))\<lparr>conc_effect := Some ?cp\<rparr>"
  let ?c4 = "ex_autoctx (Some ?t2)"
  have tg: "target ?c1 = Some (AutomationTarget (Some ?t1))"
    "target ?c2 = Some (AutomationTarget (Some ?t2))"
    "target ?c3 = Some (AutomationTarget (Some ?t2))"
    "target ?c4 = Some (AutomationTarget (Some ?t2))"
    by (simp_all add: ex_autoctx_def)
  have cb: "combatant (AutomationTarget (Some ?t1)) = Some ?t1"
    "combatant (AutomationTarget (Some ?t2)) = Some ?t2" by simp_all
  have d: "resolve_duration ex_collaborators (duration ?self) = Inr (Some 3)"
    by (simp add: ex_defs resolve_duration_def)
  have g: "concentration_spells ?self ?c1 ?t1 = Inr (Some ?cp)"
    "concentration_spells ?self ?c2 ?t2 = Inr (Some ?cp)"
    "concentration_spells ?self ?c3 ?t2 = Inr (Some ?cp)"
    "concentration_spells ?self ?c4 ?t2 = Inr None"
    by (simp_all add: concentration_spells_def ex_defs)
  have p: "parenting ?self ?c1 = Inr (Some ?ep)" "parenting ?self ?c2 = Inr (Some ?ep)"
    "parenting ?self ?c3 = Inr None" "parenting ?self ?c4 = Inr None"
    by (simp_all add: parenting_def ex_autoctx_def)
  have s: "stack_parent_of ?self ?t1 = Some ?sp" "stack_parent_of ?self ?t2 = None"
    by (simp_all add: stack_parent_of_def ex_defs get_effect_def)
  have e: "explicit_parent_of ?self ?c1 = Some ?ep" "explicit_parent_of ?self ?c2 = Some ?ep"
    "explicit_parent_of ?self ?c3 = None" "explicit_parent_of ?self ?c4 = None"
    by (simp_all add: explicit_parent_of_def ex_autoctx_def)
  have c: "conc_effect ?c1 = Some ?cp" "conc_effect ?c2 = Some ?cp" "conc_effect ?c3 = Some ?cp"
    "conc_effect ?c4 = None"
    by (simp_all add: ex_autoctx_def)
  have i: "\<And>k c n b. e_id (ex_effect k c n b) = k" by (simp add: ex_effect_def)
  from IEffect_run_succeeds [OF tg(1) cb(1) d g(1) p(1)]
  obtain r1 where r1: "IEffect_run ex_collaborators ?self ?c1 = Inr r1" ..
  from IEffect_run_succeeds [OF tg(2) cb(2) d g(2) p(2)]
  obtain r2 where r2: "IEffect_run ex_collaborators ?self ?c2 = Inr r2" ..
  from IEffect_run_succeeds [OF tg(3) cb(2) d g(3) p(3)]
  obtain r3 where r3: "IEffect_run ex_collaborators ?self ?c3 = Inr r3" ..
  from IEffect_run_succeeds [OF tg(4) cb(2) d g(4) p(4)]
  obtain r4 where r4: "IEffect_run ex_collaborators ?self ?c4 = Inr r4" ..
  from parent_priority [OF tg(1) cb(1) r1]
  have A: "e_parent (effect r1) = Some 5 \<and> parent_calls (calls r1) = [?sp]"
    unfolding s e c by (simp add: i)
  from parent_priority [OF tg(2) cb(2) r2]
  have B: "e_parent (effect r2) = Some 6 \<and> parent_calls (calls r2) = [?ep]"
    unfolding s e c by (simp add: i)
  from parent_priority [OF tg(3) cb(2) r3]
  have C: "e_parent (effect r3) = Some 7 \<and> parent_calls (calls r3) = [?cp]"
    unfolding s e c by (simp add: i)
  from parent_priority [OF tg(4) cb(2) r4]
  have D: "e_parent (effect r4) = None \<and> parent_calls (calls r4) = []"
    unfolding s e c by simp
  from r1 r2 r3 r4 A B C D show ?thesis by blast
qed

subsection \<open>C2: the self-concentration guard\<close>

text \<open>
  C2. The tracked concentration effect is attached to the caster and the \<open>IEffect\<close>
  requires concentration; the run is \<open>IEffect.run\<close> on a target with a combatant
  and has reached the guard (the duration has resolved). When the target is the caster, the
  run raises \<open>InvalidArgument\<close> from the guard. When the target is not the caster, the
  guard does not raise and the concentration effect becomes \<open>conc_parent\<close>; the run
  then returns, with the stacking parent, else the explicit parent, else the concentration
  effect as the parent, for every \<open>IEffect\<close> whose \<open>parent\<close> names no variable
  that holds a value that is neither \<open>None\<close> nor an \<open>IEffectMetaVar\<close>. For such a
  variable the error is the one of the block \<open># parenting\<close>, not the guard's.
\<close>

theorem self_concentration_guard:
  assumes "target autoctx = Some tgt" and "combatant tgt = Some t"
    and "conc_effect autoctx = Some ce" and "e_combatant ce = Some (caster autoctx)"
    and "concentration self"
    and "resolve_duration w (duration self) = Inr d"
  shows "(c_id t = caster autoctx \<longrightarrow> IEffect_run w self autoctx = Inl guard_error)
       \<and> (c_id t \<noteq> caster autoctx \<longrightarrow>
            concentration_spells self autoctx t = Inr (Some ce)
          \<and> IEffect_run w self autoctx \<noteq> Inl guard_error
          \<and> ((\<forall>p tn. parent self = Some p \<longrightarrow> metavars autoctx p \<noteq> Some (OtherValue tn)) \<longrightarrow>
               (\<exists>r. IEffect_run w self autoctx = Inr r
                  \<and> e_parent (effect r) =
                      Some (e_id (case stack_parent_of self t of
                                    Some sp \<Rightarrow> sp
                                  | None \<Rightarrow> (case explicit_parent_of self autoctx of
                                                Some ep \<Rightarrow> ep
                                              | None \<Rightarrow> ce)))))
          \<and> (\<forall>p tn. parent self = Some p \<and> metavars autoctx p = Some (OtherValue tn) \<longrightarrow>
               IEffect_run w self autoctx = Inl (parent_error p tn)))"
proof (intro conjI impI allI)
  assume "c_id t = caster autoctx"
  with assms(3-5) have "concentration_spells self autoctx t = Inl guard_error"
    by (simp add: concentration_spells_raises)
  then show "IEffect_run w self autoctx = Inl guard_error"
    using assms(6) by (simp add: IEffect_run_attached [OF assms(1,2)] attach_guard)
next
  assume h: "c_id t \<noteq> caster autoctx"
  with assms(3,4) show g: "concentration_spells self autoctx t = Inr (Some ce)"
    by (simp add: concentration_spells_passes)
  show "IEffect_run w self autoctx \<noteq> Inl guard_error"
  proof (cases "parenting self autoctx")
    case (Inl err)
    with parenting_cases [of self autoctx] obtain p tn where "err = parent_error p tn" by auto
    with Inl g assms(6) have "IEffect_run w self autoctx = Inl (parent_error p tn)"
      by (simp add: IEffect_run_attached [OF assms(1,2)] attach_parenting)
    then show ?thesis by (simp add: parent_error_not_guard)
  next
    case (Inr ep)
    from IEffect_run_succeeds [OF assms(1,2,6) g Inr] show ?thesis by auto
  qed
next
  assume h: "c_id t \<noteq> caster autoctx"
    and v: "\<forall>p tn. parent self = Some p \<longrightarrow> metavars autoctx p \<noteq> Some (OtherValue tn)"
  from h assms(3,4) have g: "concentration_spells self autoctx t = Inr (Some ce)"
    by (simp add: concentration_spells_passes)
  from v have p: "parenting self autoctx = Inr (explicit_parent_of self autoctx)"
    by (simp add: parenting_ok)
  from IEffect_run_succeeds [OF assms(1,2,6) g p]
  obtain r where r: "IEffect_run w self autoctx = Inr r" ..
  from IEffect_run_parent [OF assms(1,2) r] assms(3)
  have "e_parent (effect r) =
                 Some (e_id (case stack_parent_of self t of
                               Some sp \<Rightarrow> sp
                             | None \<Rightarrow> (case explicit_parent_of self autoctx of
                                           Some ep \<Rightarrow> ep
                                         | None \<Rightarrow> ce)))"
    by (simp add: py_or_def split: option.splits)
  with r show "\<exists>r. IEffect_run w self autoctx = Inr r
             \<and> e_parent (effect r) =
                 Some (e_id (case stack_parent_of self t of
                               Some sp \<Rightarrow> sp
                             | None \<Rightarrow> (case explicit_parent_of self autoctx of
                                           Some ep \<Rightarrow> ep
                                         | None \<Rightarrow> ce)))"
    by blast
next
  fix p tn
  assume h: "c_id t \<noteq> caster autoctx"
    and v: "parent self = Some p \<and> metavars autoctx p = Some (OtherValue tn)"
  from h assms(3,4) have g: "concentration_spells self autoctx t = Inr (Some ce)"
    by (simp add: concentration_spells_passes)
  from v have "parenting self autoctx = Inl (parent_error p tn)"
    by (simp add: parenting_def)
  with g assms(6) show "IEffect_run w self autoctx = Inl (parent_error p tn)"
    by (simp add: IEffect_run_attached [OF assms(1,2)] attach_parenting)
qed

theorem self_concentration_guard_witness:
  "IEffect_run ex_collaborators ((ex_ieffect ''Haste'')\<lparr>concentration := True\<rparr>)
      ((ex_autoctx (Some (ex_combatant 1 [ex_effect 7 1 ''Hex'' True])))
         \<lparr>conc_effect := Some (ex_effect 7 1 ''Hex'' True)\<rparr>) = Inl guard_error
   \<and> (\<exists>r. IEffect_run ex_collaborators ((ex_ieffect ''Haste'')\<lparr>concentration := True\<rparr>)
          ((ex_autoctx (Some (ex_combatant 2 [])))
             \<lparr>conc_effect := Some (ex_effect 7 1 ''Hex'' True)\<rparr>) = Inr r
        \<and> e_parent (effect r) = Some 7)
   \<and> concentration_spells ((ex_ieffect ''Haste'')\<lparr>concentration := True\<rparr>)
        ((ex_autoctx (Some (ex_combatant 2 [])))
           \<lparr>conc_effect := Some (ex_effect 7 1 ''Hex'' True)\<rparr>) (ex_combatant 2 [])
       = Inr (Some (ex_effect 7 1 ''Hex'' True))"
proof -
  let ?ce = "ex_effect 7 1 ''Hex'' True"
  let ?self = "(ex_ieffect ''Haste'')\<lparr>concentration := True\<rparr>"
  let ?t1 = "ex_combatant 1 [?ce]"
  let ?t2 = "ex_combatant 2 []"
  let ?ctx1 = "(ex_autoctx (Some ?t1))\<lparr>conc_effect := Some ?ce\<rparr>"
  let ?ctx2 = "(ex_autoctx (Some ?t2))\<lparr>conc_effect := Some ?ce\<rparr>"
  have a1: "target ?ctx1 = Some (AutomationTarget (Some ?t1))" by (simp add: ex_autoctx_def)
  have b1: "target ?ctx2 = Some (AutomationTarget (Some ?t2))" by (simp add: ex_autoctx_def)
  have a2: "combatant (AutomationTarget (Some ?t1)) = Some ?t1" by simp
  have b2: "combatant (AutomationTarget (Some ?t2)) = Some ?t2" by simp
  have a3: "conc_effect ?ctx1 = Some ?ce" by simp
  have b3: "conc_effect ?ctx2 = Some ?ce" by simp
  have a4: "e_combatant ?ce = Some (caster ?ctx1)" by (simp add: ex_defs)
  have b4: "e_combatant ?ce = Some (caster ?ctx2)" by (simp add: ex_defs)
  have 5: "concentration ?self" by (simp add: ex_defs)
  have 6: "resolve_duration ex_collaborators (duration ?self) = Inr (Some 3)"
    by (simp add: ex_defs resolve_duration_def)
  have a7: "c_id ?t1 = caster ?ctx1" by (simp add: ex_defs)
  have b7: "c_id ?t2 \<noteq> caster ?ctx2" by (simp add: ex_defs)
  have b8: "\<forall>p tn. parent ?self = Some p \<longrightarrow> metavars ?ctx2 p \<noteq> Some (OtherValue tn)"
    by (simp add: ex_defs)
  have b9: "stack_parent_of ?self ?t2 = None" "explicit_parent_of ?self ?ctx2 = None"
    by (simp_all add: stack_parent_of_def explicit_parent_of_def ex_defs)
  from self_concentration_guard [OF a1 a2 a3 a4 5 6] a7
  have A: "IEffect_run ex_collaborators ?self ?ctx1 = Inl guard_error" by blast
  note th = self_concentration_guard [OF b1 b2 b3 b4 5 6]
  from th b7 have G: "concentration_spells ?self ?ctx2 ?t2 = Inr (Some ?ce)" by blast
  from th b7 b8
  obtain r where "IEffect_run ex_collaborators ?self ?ctx2 = Inr r"
    "e_parent (effect r) = Some (e_id (case stack_parent_of ?self ?t2 of
                               Some sp \<Rightarrow> sp
                             | None \<Rightarrow> (case explicit_parent_of ?self ?ctx2 of
                                           Some ep \<Rightarrow> ep
                                         | None \<Rightarrow> ?ce)))"
    by blast
  then have B: "\<exists>r. IEffect_run ex_collaborators ?self ?ctx2 = Inr r \<and> e_parent (effect r) = Some 7"
    unfolding b9 by (simp add: ex_effect_def)
  from A B G show ?thesis by blast
qed

subsection \<open>C3: stacking disambiguation\<close>

text \<open>
  C3. In a run of \<open>IEffect.run\<close> that returns, for a stacking effect whose name
  \<open>n\<close> strictly matches an effect of the target, the new name is \<open>n x<k>\<close> for
  the count \<open>k\<close> reached by testing the counts from 2 upwards: \<open>k\<close> is at least 2,
  the name of count \<open>k\<close> is unused on the target, and the name of every count from 2
  below \<open>k\<close> is in use. In particular, when the names on the target are exactly
  \<open>n\<close>, \<open>n x2\<close> and \<open>n x3\<close> the new name is \<open>n x4\<close>, and when
  \<open>n\<close> is the only name it is \<open>n x2\<close>.
\<close>

theorem stacking_disambiguation:
  assumes "target autoctx = Some tgt" and "combatant tgt = Some t"
    and "IEffect_run w self autoctx = Inr r"
    and "stacking self" and "get_effect t (name self) \<noteq> None"
  shows "(\<exists>k\<ge>2. e_name (effect r) = stack_name (name self) k
            \<and> get_effect t (stack_name (name self) k) = None
            \<and> (\<forall>j. 2 \<le> j \<and> j < k \<longrightarrow> get_effect t (stack_name (name self) j) \<noteq> None))
       \<and> (e_name ` set (c_effects t) = {name self, name self @ '' x2'', name self @ '' x3''}
            \<longrightarrow> e_name (effect r) = name self @ '' x4'')
       \<and> (e_name ` set (c_effects t) = {name self}
            \<longrightarrow> e_name (effect r) = name self @ '' x2'')"
proof -
  from assms(1-3) obtain d e0 where a: "attach w self autoctx t e0 = Inr r"
    and e0: "e_name e0 = name self"
    by (rule IEffect_run_attach) simp
  from a e0 assms(4,5) show ?thesis by (rule attach_stacking_name)
qed

theorem stacking_disambiguation_witness:
  "\<exists>r. IEffect_run ex_collaborators ((ex_ieffect ''Poison'')\<lparr>stacking := True\<rparr>)
          (ex_autoctx (Some (ex_combatant 2
             [ex_effect 5 2 ''Poison'' False, ex_effect 6 2 ''Poison x2'' False,
              ex_effect 7 2 ''Poison x3'' False]))) = Inr r
       \<and> e_name (effect r) = ''Poison x4''"
proof -
  let ?t = "ex_combatant 2
             [ex_effect 5 2 ''Poison'' False, ex_effect 6 2 ''Poison x2'' False,
              ex_effect 7 2 ''Poison x3'' False]"
  let ?self = "(ex_ieffect ''Poison'')\<lparr>stacking := True\<rparr>"
  let ?ctx = "ex_autoctx (Some ?t)"
  have 1: "target ?ctx = Some (AutomationTarget (Some ?t))" by (simp add: ex_autoctx_def)
  have 2: "combatant (AutomationTarget (Some ?t)) = Some ?t" by simp
  have "\<exists>r. IEffect_run ex_collaborators ?self ?ctx = Inr r"
    by (rule IEffect_run_succeeds [OF 1 2])
       (simp_all add: ex_defs resolve_duration_def concentration_spells_def parenting_def)
  then obtain r where r: "IEffect_run ex_collaborators ?self ?ctx = Inr r" ..
  have 3: "stacking ?self" by (simp add: ex_ieffect_def)
  have 4: "get_effect ?t (name ?self) \<noteq> None" by (simp add: ex_defs get_effect_def)
  have 5: "e_name ` set (c_effects ?t) = {name ?self, name ?self @ '' x2'', name ?self @ '' x3''}"
    by (simp add: ex_defs)
  have 6: "name ?self = ''Poison''" by (simp add: ex_defs)
  from stacking_disambiguation [OF 1 2 r 3 4] 5 r show ?thesis unfolding 6 by auto
qed

subsection \<open>C4: stack neutralization\<close>

text \<open>
  C4. In a run of \<open>IEffect.run\<close> that returns, an effect produced on the stacking
  path (\<open>stacking\<close> is set and an effect of the target strictly matches the name) has
  \<open>remaining = -1\<close>, no description and \<open>concentration = False\<close> when it is passed
  to \<open>add_effect\<close>, whatever duration, description and concentration the
  \<open>IEffect\<close> has; its \<open>duration\<close> is \<open>-1\<close> as well.
\<close>

theorem stack_neutralization:
  assumes "target autoctx = Some tgt" and "combatant tgt = Some t"
    and "IEffect_run w self autoctx = Inr r"
    and "stacking self" and "get_effect t (name self) \<noteq> None"
  shows "e_remaining (effect r) = Some (- 1) \<and> e_desc (effect r) = None
       \<and> \<not> e_concentration (effect r) \<and> e_duration (effect r) = Some (- 1)
       \<and> last (calls r) = AddEffect t (effect r)"
proof -
  from assms(1-3) obtain d e0 where a: "attach w self autoctx t e0 = Inr r"
    and e0: "e_name e0 = name self"
    by (rule IEffect_run_attach) simp
  from assms(5) obtain sp where sp: "get_effect t (e_name e0) = Some sp" using e0 by auto
  from attach_effect [OF a] stacking_block_match [OF assms(4) sp]
  show ?thesis by auto
qed

theorem stack_neutralization_witness:
  "\<exists>r. IEffect_run ex_collaborators
          ((ex_ieffect ''Poison'')\<lparr>stacking := True, concentration := True,
              desc := Some ''burns'', duration := Literal (Some 5)\<rparr>)
          (ex_autoctx (Some (ex_combatant 2 [ex_effect 5 2 ''Poison'' False]))) = Inr r
       \<and> e_remaining (effect r) = Some (- 1) \<and> e_desc (effect r) = None
       \<and> \<not> e_concentration (effect r)"
proof -
  let ?t = "ex_combatant 2 [ex_effect 5 2 ''Poison'' False]"
  let ?self = "(ex_ieffect ''Poison'')\<lparr>stacking := True, concentration := True,
              desc := Some ''burns'', duration := Literal (Some 5)\<rparr>"
  let ?ctx = "ex_autoctx (Some ?t)"
  have 1: "target ?ctx = Some (AutomationTarget (Some ?t))" by (simp add: ex_autoctx_def)
  have 2: "combatant (AutomationTarget (Some ?t)) = Some ?t" by simp
  have "\<exists>r. IEffect_run ex_collaborators ?self ?ctx = Inr r"
    by (rule IEffect_run_succeeds [OF 1 2])
       (simp_all add: ex_defs resolve_duration_def concentration_spells_def parenting_def)
  then obtain r where r: "IEffect_run ex_collaborators ?self ?ctx = Inr r" ..
  have 3: "stacking ?self" by (simp add: ex_ieffect_def)
  have 4: "get_effect ?t (name ?self) \<noteq> None" by (simp add: ex_defs get_effect_def)
  from stack_neutralization [OF 1 2 r 3 4] r show ?thesis by auto
qed

subsection \<open>C5: the guard and the stacking step\<close>

text \<open>
  C5, as stated, has the stacking step run before the guard, so that a stacking
  concentration \<open>IEffect\<close> whose name matches an effect of the caster, applied to the
  caster while a concentration effect is tracked, passes the guard with
  \<open>concentration = False\<close>. The block \<open># concentration spells\<close> precedes the
  block \<open># stacking\<close> and tests \<open>self.concentration\<close>: that run raises
  \<open>InvalidArgument\<close>.
\<close>

theorem guard_before_stacking_counterexample:
  "stacking ((ex_ieffect ''Hex'')\<lparr>stacking := True, concentration := True\<rparr>)
   \<and> concentration ((ex_ieffect ''Hex'')\<lparr>stacking := True, concentration := True\<rparr>)
   \<and> get_effect (ex_combatant 1 [ex_effect 7 1 ''Hex'' True]) ''Hex''
        = Some (ex_effect 7 1 ''Hex'' True)
   \<and> c_id (ex_combatant 1 [ex_effect 7 1 ''Hex'' True])
        = caster (ex_autoctx (Some (ex_combatant 1 [ex_effect 7 1 ''Hex'' True])))
   \<and> IEffect_run ex_collaborators
        ((ex_ieffect ''Hex'')\<lparr>stacking := True, concentration := True\<rparr>)
        ((ex_autoctx (Some (ex_combatant 1 [ex_effect 7 1 ''Hex'' True])))
           \<lparr>conc_effect := Some (ex_effect 7 1 ''Hex'' True)\<rparr>)
       = Inl (InvalidArgument
           ''Concentration spells cannot add concentration effects to the caster.'')"
  by (simp add: run_defs ex_defs)

text \<open>
  C5, amended. The guard is evaluated before the stacking step and on the concentration
  flag of the \<open>IEffect\<close>: for an \<open>IEffect\<close> with \<open>stacking\<close> and
  \<open>concentration\<close> set whose name matches an effect of the target, where the target
  is the caster and the caster's concentration effect is tracked, \<open>IEffect.run\<close>
  raises \<open>InvalidArgument\<close> from the guard once the duration resolves.
\<close>

theorem guard_before_stacking:
  assumes "target autoctx = Some tgt" and "combatant tgt = Some t"
    and "stacking self" and "concentration self" and "get_effect t (name self) \<noteq> None"
    and "c_id t = caster autoctx"
    and "conc_effect autoctx = Some ce" and "e_combatant ce = Some (caster autoctx)"
    and "resolve_duration w (duration self) = Inr d"
  shows "IEffect_run w self autoctx = Inl guard_error"
proof -
  from assms(4,6-8) have "concentration_spells self autoctx t = Inl guard_error"
    by (simp add: concentration_spells_raises)
  then show ?thesis
    using assms(9) by (simp add: IEffect_run_attached [OF assms(1,2)] attach_guard)
qed

theorem guard_before_stacking_witness:
  "IEffect_run ex_collaborators
        ((ex_ieffect ''Hex'')\<lparr>stacking := True, concentration := True,
            duration := Expression ''3''\<rparr>)
        ((ex_autoctx (Some (ex_combatant 1 [ex_effect 7 1 ''Hex'' True])))
           \<lparr>conc_effect := Some (ex_effect 7 1 ''Hex'' True)\<rparr>)
       = Inl guard_error"
proof -
  let ?ce = "ex_effect 7 1 ''Hex'' True"
  let ?self = "(ex_ieffect ''Hex'')\<lparr>stacking := True, concentration := True,
            duration := Expression ''3''\<rparr>"
  let ?t = "ex_combatant 1 [?ce]"
  let ?ctx = "(ex_autoctx (Some ?t))\<lparr>conc_effect := Some ?ce\<rparr>"
  have 1: "target ?ctx = Some (AutomationTarget (Some ?t))" by (simp add: ex_autoctx_def)
  have 2: "combatant (AutomationTarget (Some ?t)) = Some ?t" by simp
  have 3: "stacking ?self" "concentration ?self" by (simp_all add: ex_defs)
  have 4: "get_effect ?t (name ?self) \<noteq> None" by (simp add: ex_defs get_effect_def)
  have 5: "c_id ?t = caster ?ctx" by (simp add: ex_defs)
  have 6: "conc_effect ?ctx = Some ?ce" by simp
  have 7: "e_combatant ?ce = Some (caster ?ctx)" by (simp add: ex_defs)
  have 8: "resolve_duration ex_collaborators (duration ?self) = Inr (Some 3)"
    by (simp add: ex_defs resolve_duration_def)
  from guard_before_stacking [OF 1 2 3 4 5 6 7 8] show ?thesis .
qed

subsection \<open>C6: the name at attachment\<close>

text \<open>
  C6, as stated, asks of every run that attaches an effect, stacking or not, that the name
  passed to \<open>add_effect\<close> matches no effect of the target. Without \<open>stacking\<close>
  the target is not searched and the name is kept: an effect named \<open>Bless\<close> is passed
  to \<open>add_effect\<close> of a target that already has an effect named \<open>Bless\<close>.
\<close>

theorem name_uniqueness_counterexample:
  "\<not> stacking (ex_ieffect ''Bless'')
   \<and> \<not> isl (IEffect_run ex_collaborators (ex_ieffect ''Bless'')
          (ex_autoctx (Some (ex_combatant 2 [ex_effect 5 2 ''Bless'' False]))))
   \<and> calls (projr (IEffect_run ex_collaborators (ex_ieffect ''Bless'')
          (ex_autoctx (Some (ex_combatant 2 [ex_effect 5 2 ''Bless'' False])))))
       = [AddEffect (ex_combatant 2 [ex_effect 5 2 ''Bless'' False])
            ((ex_effect 9 2 ''Bless'' False)\<lparr>e_duration := Some 3, e_remaining := Some 3,
               e_passive_effects := Some []\<rparr>)]
   \<and> get_effect (ex_combatant 2 [ex_effect 5 2 ''Bless'' False]) ''Bless''
       = Some (ex_effect 5 2 ''Bless'' False)"
  by (simp add: run_defs ex_defs)

text \<open>
  C6, amended. In a run of \<open>IEffect.run\<close> that returns for an \<open>IEffect\<close> with
  \<open>stacking\<close> set, every call of \<open>add_effect\<close> is made on the combatant of the
  target with the returned effect, and at that call no effect of the target strictly matches
  the name of the effect.
\<close>

theorem stacking_name_unused:
  assumes "IEffect_run w self autoctx = Inr r" and "stacking self"
    and "AddEffect t e \<in> set (calls r)"
  shows "target autoctx = Some (AutomationTarget (Some t)) \<and> e = effect r
       \<and> get_effect t (e_name e) = None"
proof -
  from assms(1) obtain tgt where tgt: "target autoctx = Some tgt"
    by (auto simp: IEffect_run_def split: option.splits)
  show ?thesis
  proof (cases "combatant tgt")
    case None
    from assms(1) have "calls r = []"
      unfolding IEffect_run_detached [OF tgt None]
      by (auto simp: Let_def split: sum.splits)
    with assms(3) show ?thesis by simp
  next
    case (Some t')
    from tgt Some assms(1) obtain d e0 where a: "attach w self autoctx t' e0 = Inr r"
      and e0: "e_name e0 = name self"
      by (rule IEffect_run_attach) simp
    from a obtain cp ep e1 sp where
      sb: "stacking_block self t' e0 = (e1, sp)" and
      c: "calls r = (case py_or sp (py_or ep cp) of Some p \<Rightarrow> [SetParent e1 p] | None \<Rightarrow> [])
               @ [AddEffect t' (effect r)]"
      by (rule attach_Inr)
    from assms(3) have te: "t = t'" "e = effect r"
      unfolding c by (auto split: option.splits)
    from attach_effect(1) [OF a] sb have n: "e_name (effect r) = e_name e1" by auto
    have "get_effect t' (e_name e1) = None"
    proof (cases "get_effect t' (e_name e0)")
      case None
      with sb stacking_block_no_match [of self t' e0] show ?thesis by simp
    next
      case (Some m)
      from stacking_block_match [OF assms(2) Some] sb
      have "e_name e1 = stack_name (e_name e0) (stack_count t' (e_name e0) 2)" by auto
      with stack_count_spec [of 2 t' "e_name e0"] show ?thesis by simp
    qed
    moreover have "tgt = AutomationTarget (Some t')" using Some by (cases tgt) simp
    ultimately show ?thesis using te n tgt by simp
  qed
qed

theorem stacking_name_unused_witness:
  "\<exists>r. IEffect_run ex_collaborators ((ex_ieffect ''Poison'')\<lparr>stacking := True\<rparr>)
          (ex_autoctx (Some (ex_combatant 2 [ex_effect 5 2 ''Poison'' False]))) = Inr r
       \<and> AddEffect (ex_combatant 2 [ex_effect 5 2 ''Poison'' False]) (effect r) \<in> set (calls r)
       \<and> get_effect (ex_combatant 2 [ex_effect 5 2 ''Poison'' False]) (e_name (effect r)) = None"
proof -
  let ?t = "ex_combatant 2 [ex_effect 5 2 ''Poison'' False]"
  let ?self = "(ex_ieffect ''Poison'')\<lparr>stacking := True\<rparr>"
  let ?ctx = "ex_autoctx (Some ?t)"
  have 1: "target ?ctx = Some (AutomationTarget (Some ?t))" by (simp add: ex_autoctx_def)
  have 2: "combatant (AutomationTarget (Some ?t)) = Some ?t" by simp
  have "\<exists>r. IEffect_run ex_collaborators ?self ?ctx = Inr r"
    by (rule IEffect_run_succeeds [OF 1 2])
       (simp_all add: ex_defs resolve_duration_def concentration_spells_def parenting_def)
  then obtain r where r: "IEffect_run ex_collaborators ?self ?ctx = Inr r" ..
  from 1 2 r obtain d e0 where "attach ex_collaborators ?self ?ctx ?t e0 = Inr r"
    by (rule IEffect_run_attach)
  then have m: "AddEffect ?t (effect r) \<in> set (calls r)" by (rule attach_calls_member)
  have 3: "stacking ?self" by (simp add: ex_ieffect_def)
  from stacking_name_unused [OF r 3 m] m r show ?thesis by blast
qed

subsection \<open>C7: the variable saved\<close>

text \<open>
  C7, as stated, stores an \<open>IEffectMetaVar\<close> under \<open>save_as\<close> in every run,
  also for a target without a combatant. The assignment to \<open>metavars\<close> stands in the
  branch of a target with a combatant only: a detached run with \<open>save_as = x\<close>
  returns and leaves \<open>x\<close> unbound.
\<close>

theorem save_as_detached_counterexample:
  "save_as ((ex_ieffect ''Poison'')\<lparr>save_as := Some ''x''\<rparr>) = Some ''x''
   \<and> \<not> isl (IEffect_run ex_collaborators ((ex_ieffect ''Poison'')\<lparr>save_as := Some ''x''\<rparr>)
            (ex_autoctx None))
   \<and> metavars (ctx_after (projr (IEffect_run ex_collaborators
        ((ex_ieffect ''Poison'')\<lparr>save_as := Some ''x''\<rparr>) (ex_autoctx None)))) ''x'' = None"
  by (simp add: run_defs ex_defs)

text \<open>
  C7, amended. In a run of \<open>IEffect.run\<close> that returns: when the target has a
  combatant and \<open>save_as\<close> is present, the variable table after the run is the table
  before it with an \<open>IEffectMetaVar\<close> of the returned effect under that name; when
  the target has no combatant, or \<open>save_as\<close> is absent, the table is unchanged.
\<close>

theorem save_as_storage:
  assumes "target autoctx = Some tgt" and "IEffect_run w self autoctx = Inr r"
  shows "(\<forall>t v. combatant tgt = Some t \<and> save_as self = Some v \<longrightarrow>
            metavars (ctx_after r) = (metavars autoctx)(v \<mapsto> IEffectMetaVar (effect r)))
       \<and> (combatant tgt = None \<or> save_as self = None \<longrightarrow>
            metavars (ctx_after r) = metavars autoctx)"
proof (cases "combatant tgt")
  case None
  from assms(2) have "metavars (ctx_after r) = metavars autoctx"
    unfolding IEffect_run_detached [OF assms(1) None]
    by (auto simp: Let_def split: sum.splits)
  with None show ?thesis by simp
next
  case (Some t)
  from assms(1) Some assms(2) obtain d e0 where "attach w self autoctx t e0 = Inr r"
    by (rule IEffect_run_attach)
  then obtain cp ep e1 sp where
    "metavars (ctx_after r) = (case save_as self of
                                 Some v \<Rightarrow> (metavars autoctx)(v \<mapsto> IEffectMetaVar (effect r))
                               | None \<Rightarrow> metavars autoctx)"
    by (rule attach_Inr)
  with Some show ?thesis by (auto split: option.splits)
qed

theorem save_as_storage_witness:
  "\<exists>r. IEffect_run ex_collaborators ((ex_ieffect ''Poison'')\<lparr>save_as := Some ''x''\<rparr>)
          (ex_autoctx (Some (ex_combatant 2 []))) = Inr r
       \<and> metavars (ctx_after r) ''x'' = Some (IEffectMetaVar (effect r))"
proof -
  let ?t = "ex_combatant 2 []"
  let ?self = "(ex_ieffect ''Poison'')\<lparr>save_as := Some ''x''\<rparr>"
  let ?ctx = "ex_autoctx (Some ?t)"
  have 1: "target ?ctx = Some (AutomationTarget (Some ?t))" by (simp add: ex_autoctx_def)
  have 2: "combatant (AutomationTarget (Some ?t)) = Some ?t" by simp
  have "\<exists>r. IEffect_run ex_collaborators ?self ?ctx = Inr r"
    by (rule IEffect_run_succeeds [OF 1 2])
       (simp_all add: ex_defs resolve_duration_def concentration_spells_def parenting_def)
  then obtain r where r: "IEffect_run ex_collaborators ?self ?ctx = Inr r" ..
  have 3: "save_as ?self = Some ''x''" by (simp add: ex_ieffect_def)
  from save_as_storage [OF 1 r] 2 3 r show ?thesis by auto
qed

subsection \<open>C8: detached mode\<close>

text \<open>
  C8. In a run of \<open>IEffect.run\<close> whose target has no combatant, neither
  \<open>add_effect\<close> nor \<open>set_parent\<close> is called and the target is as before, the
  returned list of concentration conflicts is empty, and the returned effect has neither a
  combatant nor a combat.
\<close>

theorem detached_mode:
  assumes "target autoctx = Some tgt" and "combatant tgt = None"
    and "IEffect_run w self autoctx = Inr r"
  shows "calls r = [] \<and> conc_conflict r = []
       \<and> e_combatant (effect r) = None \<and> e_combat (effect r) = None
       \<and> target (ctx_after r) = target autoctx"
  using assms(3) unfolding IEffect_run_detached [OF assms(1,2)]
  by (auto simp: Let_def InitiativeEffect_new_def split: sum.splits)

theorem detached_mode_witness:
  "\<exists>r. IEffect_run ex_collaborators (ex_ieffect ''Poison'') (ex_autoctx None) = Inr r
       \<and> calls r = [] \<and> conc_conflict r = [] \<and> e_combatant (effect r) = None"
proof -
  have 1: "target (ex_autoctx None) = Some (AutomationTarget None)" by (simp add: ex_autoctx_def)
  have 2: "combatant (AutomationTarget None) = None" by simp
  have "\<exists>r. IEffect_run ex_collaborators (ex_ieffect ''Poison'') (ex_autoctx None) = Inr r"
    by (simp add: IEffect_run_detached [OF 1 2] ex_ieffect_def resolve_duration_def Let_def)
  then obtain r where r: "IEffect_run ex_collaborators (ex_ieffect ''Poison'') (ex_autoctx None) = Inr r" ..
  from detached_mode [OF 1 2 r] r show ?thesis by auto
qed

subsection \<open>C9: the explicit parent\<close>

text \<open>
  C9, as stated, raises \<open>InvalidArgument\<close> in every run whose \<open>parent\<close> names
  a variable holding a value that is not an \<open>IEffectMetaVar\<close>. The block
  \<open># parenting\<close> stands in the branch of a target with a combatant: a detached run
  whose \<open>parent\<close> names an integer returns, with no parent. And the block takes a
  variable bound to \<open>None\<close> as missing: a run on a combatant whose \<open>parent\<close>
  names such a variable returns.
\<close>

theorem explicit_parent_resolution_counterexample:
  "parent ((ex_ieffect ''Poison'')\<lparr>parent := Some ''p''\<rparr>) = Some ''p''
   \<and> metavars ((ex_autoctx None)\<lparr>metavars := [''p'' \<mapsto> OtherValue ''int'']\<rparr>) ''p''
        = Some (OtherValue ''int'')
   \<and> \<not> isl (IEffect_run ex_collaborators ((ex_ieffect ''Poison'')\<lparr>parent := Some ''p''\<rparr>)
            ((ex_autoctx None)\<lparr>metavars := [''p'' \<mapsto> OtherValue ''int'']\<rparr>))
   \<and> e_parent (effect (projr (IEffect_run ex_collaborators
        ((ex_ieffect ''Poison'')\<lparr>parent := Some ''p''\<rparr>)
        ((ex_autoctx None)\<lparr>metavars := [''p'' \<mapsto> OtherValue ''int'']\<rparr>)))) = None
   \<and> metavars ((ex_autoctx (Some (ex_combatant 2 [])))\<lparr>metavars := [''p'' \<mapsto> NoneValue]\<rparr>) ''p''
        = Some NoneValue
   \<and> \<not> isl (IEffect_run ex_collaborators ((ex_ieffect ''Poison'')\<lparr>parent := Some ''p''\<rparr>)
            ((ex_autoctx (Some (ex_combatant 2 [])))\<lparr>metavars := [''p'' \<mapsto> NoneValue]\<rparr>))"
  by (simp add: run_defs ex_defs)

text \<open>
  C9, amended. In a run of \<open>IEffect.run\<close> with \<open>parent\<close> set, on a target
  with a combatant, whose duration resolves and whose guard does not raise: when the
  variable holds a value other than \<open>None\<close> that is not an \<open>IEffectMetaVar\<close>,
  the run raises \<open>InvalidArgument\<close> with a message naming the variable and the type
  of the value; when the variable is missing or holds \<open>None\<close>, the run returns and
  the explicit candidate is null (the parent is the stacking parent, else the concentration
  effect, else null); when the variable holds an \<open>IEffectMetaVar\<close>, the run returns and
  the explicit candidate is the effect of the proxy (the parent is the stacking parent, else
  that effect). On a target without a combatant the variable is never looked up: whatever
  the table holds, the run never raises that error, a returned effect has no parent, and
  the run returns whenever the duration resolves.
\<close>

theorem explicit_parent_resolution:
  assumes "target autoctx = Some tgt" and "parent self = Some p"
  shows "(\<forall>t d cp. combatant tgt = Some t \<and> resolve_duration w (duration self) = Inr d
             \<and> concentration_spells self autoctx t = Inr cp \<longrightarrow>
           (\<forall>tn. metavars autoctx p = Some (OtherValue tn) \<longrightarrow>
              IEffect_run w self autoctx = Inl (parent_error p tn))
         \<and> (metavars autoctx p = None \<or> metavars autoctx p = Some NoneValue \<longrightarrow>
              parenting self autoctx = Inr None
            \<and> (\<exists>r. IEffect_run w self autoctx = Inr r
                 \<and> e_parent (effect r) =
                     map_option e_id (py_or (stack_parent_of self t) (conc_effect autoctx))))
         \<and> (\<forall>e. metavars autoctx p = Some (IEffectMetaVar e) \<longrightarrow>
              parenting self autoctx = Inr (Some e)
            \<and> (\<exists>r. IEffect_run w self autoctx = Inr r
                 \<and> e_parent (effect r) =
                     Some (e_id (case stack_parent_of self t of Some sp \<Rightarrow> sp | None \<Rightarrow> e)))))
       \<and> (combatant tgt = None \<longrightarrow>
            (\<forall>q tn. IEffect_run w self autoctx \<noteq> Inl (parent_error q tn))
          \<and> (\<forall>r. IEffect_run w self autoctx = Inr r \<longrightarrow> e_parent (effect r) = None)
          \<and> (\<forall>d. resolve_duration w (duration self) = Inr d \<longrightarrow>
                (\<exists>r. IEffect_run w self autoctx = Inr r)))"
proof (intro conjI allI impI)
  fix t d cp tn
  assume h: "combatant tgt = Some t \<and> resolve_duration w (duration self) = Inr d
             \<and> concentration_spells self autoctx t = Inr cp"
    and m: "metavars autoctx p = Some (OtherValue tn)"
  with assms(2) have "parenting self autoctx = Inl (parent_error p tn)"
    by (simp add: parenting_def)
  with h show "IEffect_run w self autoctx = Inl (parent_error p tn)"
    by (simp add: IEffect_run_attached [OF assms(1)] attach_parenting)
next
  fix t d cp
  assume h: "combatant tgt = Some t \<and> resolve_duration w (duration self) = Inr d
             \<and> concentration_spells self autoctx t = Inr cp"
    and m: "metavars autoctx p = None \<or> metavars autoctx p = Some NoneValue"
  from m assms(2) show pa: "parenting self autoctx = Inr None"
    by (auto simp: parenting_def)
  from m assms(2) have ex: "explicit_parent_of self autoctx = None"
    by (auto simp: explicit_parent_of_def)
  from h have c: "combatant tgt = Some t" and d: "resolve_duration w (duration self) = Inr d"
    and g: "concentration_spells self autoctx t = Inr cp" by simp_all
  from IEffect_run_succeeds [OF assms(1) c d g pa]
  obtain r where r: "IEffect_run w self autoctx = Inr r" ..
  from IEffect_run_parent [OF assms(1) c r] ex
  have "e_parent (effect r) = map_option e_id (py_or (stack_parent_of self t) (conc_effect autoctx))"
    by (simp add: py_or_def)
  with r show "\<exists>r. IEffect_run w self autoctx = Inr r
               \<and> e_parent (effect r) =
                   map_option e_id (py_or (stack_parent_of self t) (conc_effect autoctx))"
    by blast
next
  fix t d cp e
  assume h: "combatant tgt = Some t \<and> resolve_duration w (duration self) = Inr d
             \<and> concentration_spells self autoctx t = Inr cp"
    and m: "metavars autoctx p = Some (IEffectMetaVar e)"
  from m assms(2) show pa: "parenting self autoctx = Inr (Some e)"
    by (auto simp: parenting_def)
  from m assms(2) have ex: "explicit_parent_of self autoctx = Some e"
    by (auto simp: explicit_parent_of_def)
  from h have c: "combatant tgt = Some t" and d: "resolve_duration w (duration self) = Inr d"
    and g: "concentration_spells self autoctx t = Inr cp" by simp_all
  from IEffect_run_succeeds [OF assms(1) c d g pa]
  obtain r where r: "IEffect_run w self autoctx = Inr r" ..
  from IEffect_run_parent [OF assms(1) c r] ex
  have "e_parent (effect r) =
                   Some (e_id (case stack_parent_of self t of Some sp \<Rightarrow> sp | None \<Rightarrow> e))"
    by (simp add: py_or_def split: option.splits)
  with r show "\<exists>r. IEffect_run w self autoctx = Inr r
               \<and> e_parent (effect r) =
                   Some (e_id (case stack_parent_of self t of Some sp \<Rightarrow> sp | None \<Rightarrow> e))"
    by blast
next
  fix q tn
  assume n: "combatant tgt = None"
  show "IEffect_run w self autoctx \<noteq> Inl (parent_error q tn)"
  proof
    assume "IEffect_run w self autoctx = Inl (parent_error q tn)"
    from detached_error [OF assms(1) n this] show False
      by (simp add: parent_error_def duration_error_def)
  qed
next
  fix r
  assume n: "combatant tgt = None" and r: "IEffect_run w self autoctx = Inr r"
  from r show "e_parent (effect r) = None"
    unfolding IEffect_run_detached [OF assms(1) n]
    by (auto simp: Let_def split: sum.splits)
next
  fix d
  assume n: "combatant tgt = None" and d: "resolve_duration w (duration self) = Inr d"
  show "\<exists>r. IEffect_run w self autoctx = Inr r"
    by (simp add: IEffect_run_detached [OF assms(1) n] d Let_def)
qed

theorem explicit_parent_resolution_witness:
  "IEffect_run ex_collaborators ((ex_ieffect ''Poison'')\<lparr>parent := Some ''p''\<rparr>)
      ((ex_autoctx (Some (ex_combatant 2 [])))\<lparr>metavars := [''p'' \<mapsto> OtherValue ''int'']\<rparr>)
     = Inl (parent_error ''p'' ''int'')
   \<and> (\<exists>r. IEffect_run ex_collaborators ((ex_ieffect ''Poison'')\<lparr>parent := Some ''p''\<rparr>)
          (ex_autoctx (Some (ex_combatant 2 []))) = Inr r
        \<and> e_parent (effect r) = None)
   \<and> (\<exists>r. IEffect_run ex_collaborators ((ex_ieffect ''Poison'')\<lparr>parent := Some ''p''\<rparr>)
          ((ex_autoctx (Some (ex_combatant 2 [])))
             \<lparr>metavars := [''p'' \<mapsto> IEffectMetaVar (ex_effect 6 3 ''Bless'' False)]\<rparr>) = Inr r
        \<and> e_parent (effect r) = Some 6)
   \<and> (\<exists>r. IEffect_run ex_collaborators ((ex_ieffect ''Poison'')\<lparr>parent := Some ''p''\<rparr>)
          ((ex_autoctx None)\<lparr>metavars := [''p'' \<mapsto> OtherValue ''int'']\<rparr>) = Inr r
        \<and> e_parent (effect r) = None)"
proof -
  let ?self = "(ex_ieffect ''Poison'')\<lparr>parent := Some ''p''\<rparr>"
  let ?t = "ex_combatant 2 []"
  let ?c0 = "ex_autoctx (Some ?t)"
  let ?c1 = "?c0\<lparr>metavars := [''p'' \<mapsto> OtherValue ''int'']\<rparr>"
  let ?c2 = "?c0\<lparr>metavars := [''p'' \<mapsto> IEffectMetaVar (ex_effect 6 3 ''Bless'' False)]\<rparr>"
  let ?c3 = "(ex_autoctx None)\<lparr>metavars := [''p'' \<mapsto> OtherValue ''int'']\<rparr>"
  have t0: "target ?c0 = Some (AutomationTarget (Some ?t))"
    and t1: "target ?c1 = Some (AutomationTarget (Some ?t))"
    and t2: "target ?c2 = Some (AutomationTarget (Some ?t))"
    and t3: "target ?c3 = Some (AutomationTarget None)"
    by (simp_all add: ex_autoctx_def)
  have c: "combatant (AutomationTarget (Some ?t)) = Some ?t"
    and c3: "combatant (AutomationTarget None) = None" by simp_all
  have p: "parent ?self = Some ''p''" by simp
  have d: "resolve_duration ex_collaborators (duration ?self) = Inr (Some 3)"
    by (simp add: ex_defs resolve_duration_def)
  have g0: "concentration_spells ?self ?c0 ?t = Inr None"
    and g1: "concentration_spells ?self ?c1 ?t = Inr None"
    and g2: "concentration_spells ?self ?c2 ?t = Inr None"
    by (simp_all add: concentration_spells_def ex_autoctx_def)
  have s: "stack_parent_of ?self ?t = None" by (simp add: stack_parent_of_def ex_defs)
  have m0: "metavars ?c0 ''p'' = None" by (simp add: ex_autoctx_def)
  have m1: "metavars ?c1 ''p'' = Some (OtherValue ''int'')" by simp
  have m2: "metavars ?c2 ''p'' = Some (IEffectMetaVar (ex_effect 6 3 ''Bless'' False))" by simp
  have n0: "conc_effect ?c0 = None" by (simp add: ex_autoctx_def)
  from explicit_parent_resolution [OF t1 p, of ex_collaborators] c d g1 m1
  have A: "IEffect_run ex_collaborators ?self ?c1 = Inl (parent_error ''p'' ''int'')" by blast
  from explicit_parent_resolution [OF t0 p, of ex_collaborators] c d g0 m0
  have "\<exists>r. IEffect_run ex_collaborators ?self ?c0 = Inr r
     \<and> e_parent (effect r) = map_option e_id (py_or (stack_parent_of ?self ?t) (conc_effect ?c0))"
    by blast
  then have B: "\<exists>r. IEffect_run ex_collaborators ?self ?c0 = Inr r \<and> e_parent (effect r) = None"
    unfolding s n0 by (simp add: py_or_def)
  from explicit_parent_resolution [OF t2 p, of ex_collaborators] c d g2 m2
  have "\<exists>r. IEffect_run ex_collaborators ?self ?c2 = Inr r
     \<and> e_parent (effect r) = Some (e_id (case stack_parent_of ?self ?t of
          Some sp \<Rightarrow> sp | None \<Rightarrow> ex_effect 6 3 ''Bless'' False))"
    by blast
  then have C: "\<exists>r. IEffect_run ex_collaborators ?self ?c2 = Inr r \<and> e_parent (effect r) = Some 6"
    unfolding s by (simp add: ex_effect_def)
  from explicit_parent_resolution [OF t3 p, of ex_collaborators] c3 d
  have D: "\<exists>r. IEffect_run ex_collaborators ?self ?c3 = Inr r \<and> e_parent (effect r) = None"
    by blast
  from A B C D show ?thesis by blast
qed

subsection \<open>C10: the duration and its override\<close>

text \<open>
  C10. In a run of \<open>IEffect.run\<close> with a target and a string duration, the string
  is evaluated before the \<open>dur\<close> argument is read: when the evaluation fails the run
  raises \<open>AutomationException\<close>, whether or not the caller gave a \<open>dur\<close>
  argument; when it succeeds and a \<open>dur\<close> argument is present, the run is the run of
  the same \<open>IEffect\<close> with the argument as its literal duration, and the effect has
  the argument as its duration and remaining duration unless the stacking step replaced
  them.
\<close>

theorem duration_override:
  assumes "target autoctx = Some tgt" and "duration self = Expression s"
  shows "(parse_intexpression w s = None \<longrightarrow> IEffect_run w self autoctx = Inl (duration_error s))
       \<and> (\<forall>n d. parse_intexpression w s = Some n \<and> args_dur autoctx = Some d \<longrightarrow>
            IEffect_run w self autoctx = IEffect_run w (self\<lparr>duration := Literal (Some d)\<rparr>) autoctx
            \<and> (\<forall>r. IEffect_run w self autoctx = Inr r
                   \<and> (\<forall>t. combatant tgt = Some t \<and> stacking self \<longrightarrow>
                          get_effect t (name self) = None) \<longrightarrow>
                   e_duration (effect r) = Some d \<and> e_remaining (effect r) = Some d))"
proof (intro conjI allI impI)
  assume "parse_intexpression w s = None"
  then show "IEffect_run w self autoctx = Inl (duration_error s)"
    using assms by (simp add: IEffect_run_def resolve_duration_def duration_error_def)
next
  fix n d
  assume h: "parse_intexpression w s = Some n \<and> args_dur autoctx = Some d"
  with assms(2) have rd: "resolve_duration w (duration self) = Inr (Some n)"
    by (simp add: resolve_duration_def)
  from h have ad: "args_last_dur autoctx (Some n) = Some d" "args_last_dur autoctx (Some d) = Some d"
    by (simp_all add: args_last_dur_def)
  have rl: "resolve_duration w (Literal (Some d)) = Inr (Some d)"
    by (simp add: resolve_duration_def)
  show "IEffect_run w self autoctx = IEffect_run w (self\<lparr>duration := Literal (Some d)\<rparr>) autoctx"
  proof (cases "combatant tgt")
    case None
    show ?thesis
      unfolding IEffect_run_detached [OF assms(1) None]
      by (simp add: rd rl ad)
  next
    case (Some t)
    show ?thesis
      unfolding IEffect_run_attached [OF assms(1) Some]
      by (simp add: rd rl ad attach_duration_update)
  qed
  fix r
  assume k: "IEffect_run w self autoctx = Inr r
                   \<and> (\<forall>t. combatant tgt = Some t \<and> stacking self \<longrightarrow>
                          get_effect t (name self) = None)"
  show "e_duration (effect r) = Some d" "e_remaining (effect r) = Some d"
  proof -
    have "e_duration (effect r) = Some d \<and> e_remaining (effect r) = Some d"
    proof (cases "combatant tgt")
      case None
      from k show ?thesis
        unfolding IEffect_run_detached [OF assms(1) None]
        by (auto simp: rd ad Let_def)
    next
      case (Some t)
      from assms(1) Some k obtain d' e0 where
        d': "resolve_duration w (duration self) = Inr d'" and
        e0: "e0 = InitiativeEffect_new w (Some (c_combat t)) (Some (c_id t)) (name self)
             (args_last_dur autoctx d') None
             (Some (case effects self of Some e \<Rightarrow> resolve_effects w e
                    | None \<Rightarrow> default_passive_effect w))
             (map (resolve_attack w) (attacks self)) (map (resolve_button w) (buttons self))
             (end_on_turn_end self) (concentration self) (resolve_desc w (desc self))" and
        a: "attach w self autoctx t e0 = Inr r"
        by (auto elim: IEffect_run_attach)
      from d' rd have "d' = Some n" by simp
      with e0 ad have du: "e_duration e0 = Some d" "e_remaining e0 = Some d" "e_name e0 = name self"
        by simp_all
      from k Some have "\<not> stacking self \<or> get_effect t (e_name e0) = None"
        using du(3) by auto
      then have "stacking_block self t e0 = (e0, None)" by (rule stacking_block_no_match)
      with attach_effect(1) [OF a] du show ?thesis by auto
    qed
    then show "e_duration (effect r) = Some d" "e_remaining (effect r) = Some d" by simp_all
  qed
qed

theorem duration_override_witness:
  "IEffect_run ex_collaborators ((ex_ieffect ''Poison'')\<lparr>duration := Expression ''1d4''\<rparr>)
      ((ex_autoctx None)\<lparr>args_dur := Some 7\<rparr>) = Inl (duration_error ''1d4'')
   \<and> (\<exists>r. IEffect_run ex_collaborators ((ex_ieffect ''Poison'')\<lparr>duration := Expression ''3''\<rparr>)
          ((ex_autoctx (Some (ex_combatant 2 [])))\<lparr>args_dur := Some 7\<rparr>) = Inr r
        \<and> e_duration (effect r) = Some 7 \<and> e_remaining (effect r) = Some 7)"
proof -
  let ?s1 = "(ex_ieffect ''Poison'')\<lparr>duration := Expression ''1d4''\<rparr>"
  let ?s2 = "(ex_ieffect ''Poison'')\<lparr>duration := Expression ''3''\<rparr>"
  let ?c1 = "(ex_autoctx None)\<lparr>args_dur := Some 7\<rparr>"
  let ?t = "ex_combatant 2 []"
  let ?c2 = "(ex_autoctx (Some ?t))\<lparr>args_dur := Some 7\<rparr>"
  have a1: "target ?c1 = Some (AutomationTarget None)" by (simp add: ex_autoctx_def)
  have a2: "duration ?s1 = Expression ''1d4''" by simp
  have a3: "parse_intexpression ex_collaborators ''1d4'' = None" by (simp add: ex_defs)
  from duration_override [OF a1 a2, of ex_collaborators] a3
  have A: "IEffect_run ex_collaborators ?s1 ?c1 = Inl (duration_error ''1d4'')" by blast
  have b1: "target ?c2 = Some (AutomationTarget (Some ?t))" by (simp add: ex_autoctx_def)
  have b2: "duration ?s2 = Expression ''3''" by simp
  have b3: "parse_intexpression ex_collaborators ''3'' = Some 3 \<and> args_dur ?c2 = Some 7"
    by (simp add: ex_defs)
  have b4: "\<forall>t. combatant (AutomationTarget (Some ?t)) = Some t \<and> stacking ?s2 \<longrightarrow>
                          get_effect t (name ?s2) = None"
    by (simp add: ex_defs)
  have "\<exists>r. IEffect_run ex_collaborators ?s2 ?c2 = Inr r"
    by (rule IEffect_run_succeeds [OF b1, of ?t])
       (simp_all add: ex_defs resolve_duration_def concentration_spells_def parenting_def)
  then obtain r where r: "IEffect_run ex_collaborators ?s2 ?c2 = Inr r" ..
  from duration_override [OF b1 b2, of ex_collaborators] b3 b4 r
  have "e_duration (effect r) = Some 7 \<and> e_remaining (effect r) = Some 7" by blast
  with r A show ?thesis by blast
qed

section \<open>The deprecated class\<close>

text \<open>
  \<open>LegacyIEffect.run\<close> has the blocks of \<open>IEffect.run\<close> and differs in the
  payload only. What C1, C2, C3 and the amended C5 say of \<open>IEffect.run\<close> holds of
  it as well.
\<close>

lemma LegacyIEffect_run_attach:
  assumes "target autoctx = Some tgt" "combatant tgt = Some t"
    and "LegacyIEffect_run w self autoctx = Inr r"
  obtains e0 where "e_name e0 = name self" "e_parent e0 = None"
    "attach w self autoctx t e0 = Inr r"
proof -
  from assms obtain d where
    "attach w self autoctx t
       (InitiativeEffect_new w (Some (c_combat t)) (Some (c_id t)) (name self)
          (args_last_dur autoctx d) (Some (parse_annostr w (legacy_effects self))) None [] []
          (tick_on_end self) (concentration self) (resolve_desc w (desc self))) = Inr r"
    by (auto simp: LegacyIEffect_run_attached split: sum.splits)
  then show thesis by (rule that [rotated 2]) simp_all
qed

lemma LegacyIEffect_run_succeeds:
  assumes "target autoctx = Some tgt" "combatant tgt = Some t"
    and "resolve_duration w (duration self) = Inr d"
    and "concentration_spells self autoctx t = Inr cp"
    and "parenting self autoctx = Inr ep"
  shows "\<exists>r. LegacyIEffect_run w self autoctx = Inr r"
  using assms by (simp add: LegacyIEffect_run_attached attach_succeeds)

lemma legacy_parent_priority:
  assumes "target autoctx = Some tgt" and "combatant tgt = Some t"
    and "LegacyIEffect_run w self autoctx = Inr r"
  shows "(case (stack_parent_of self t, explicit_parent_of self autoctx, conc_effect autoctx) of
            (Some sp, _, _) \<Rightarrow>
              e_parent (effect r) = Some (e_id sp) \<and> parent_calls (calls r) = [sp]
          | (None, Some ep, _) \<Rightarrow>
              e_parent (effect r) = Some (e_id ep) \<and> parent_calls (calls r) = [ep]
          | (None, None, Some cp) \<Rightarrow>
              e_parent (effect r) = Some (e_id cp) \<and> parent_calls (calls r) = [cp]
          | (None, None, None) \<Rightarrow>
              e_parent (effect r) = None \<and> parent_calls (calls r) = [])
         \<and> length (parent_calls (calls r)) \<le> 1"
proof -
  from assms obtain e0 where e0: "e_name e0 = name self" "e_parent e0 = None"
    and a: "attach w self autoctx t e0 = Inr r"
    by (rule LegacyIEffect_run_attach)
  note attach_parent_priority [OF a e0(2,1)]
  then show ?thesis by (simp add: py_or_def split: option.splits)
qed

lemma legacy_self_concentration_guard:
  assumes "target autoctx = Some tgt" and "combatant tgt = Some t"
    and "conc_effect autoctx = Some ce" and "e_combatant ce = Some (caster autoctx)"
    and "concentration self"
    and "resolve_duration w (duration self) = Inr d"
  shows "(c_id t = caster autoctx \<longrightarrow> LegacyIEffect_run w self autoctx = Inl guard_error)
       \<and> (c_id t \<noteq> caster autoctx \<longrightarrow>
            concentration_spells self autoctx t = Inr (Some ce)
          \<and> LegacyIEffect_run w self autoctx \<noteq> Inl guard_error
          \<and> ((\<forall>p tn. parent self = Some p \<longrightarrow> metavars autoctx p \<noteq> Some (OtherValue tn)) \<longrightarrow>
               (\<exists>r. LegacyIEffect_run w self autoctx = Inr r
                  \<and> e_parent (effect r) =
                      Some (e_id (case stack_parent_of self t of
                                    Some sp \<Rightarrow> sp
                                  | None \<Rightarrow> (case explicit_parent_of self autoctx of
                                                Some ep \<Rightarrow> ep
                                              | None \<Rightarrow> ce)))))
          \<and> (\<forall>p tn. parent self = Some p \<and> metavars autoctx p = Some (OtherValue tn) \<longrightarrow>
               LegacyIEffect_run w self autoctx = Inl (parent_error p tn)))"
proof (intro conjI impI allI)
  assume "c_id t = caster autoctx"
  with assms(3-5) have "concentration_spells self autoctx t = Inl guard_error"
    by (simp add: concentration_spells_raises)
  then show "LegacyIEffect_run w self autoctx = Inl guard_error"
    using assms(6) by (simp add: LegacyIEffect_run_attached [OF assms(1,2)] attach_guard)
next
  assume h: "c_id t \<noteq> caster autoctx"
  with assms(3,4) show g: "concentration_spells self autoctx t = Inr (Some ce)"
    by (simp add: concentration_spells_passes)
  show "LegacyIEffect_run w self autoctx \<noteq> Inl guard_error"
  proof (cases "parenting self autoctx")
    case (Inl err)
    with parenting_cases [of self autoctx] obtain p tn where "err = parent_error p tn" by auto
    with Inl g assms(6) have "LegacyIEffect_run w self autoctx = Inl (parent_error p tn)"
      by (simp add: LegacyIEffect_run_attached [OF assms(1,2)] attach_parenting)
    then show ?thesis by (simp add: parent_error_not_guard)
  next
    case (Inr ep)
    from LegacyIEffect_run_succeeds [OF assms(1,2,6) g Inr] show ?thesis by auto
  qed
next
  assume h: "c_id t \<noteq> caster autoctx"
    and v: "\<forall>p tn. parent self = Some p \<longrightarrow> metavars autoctx p \<noteq> Some (OtherValue tn)"
  from h assms(3,4) have g: "concentration_spells self autoctx t = Inr (Some ce)"
    by (simp add: concentration_spells_passes)
  from v have p: "parenting self autoctx = Inr (explicit_parent_of self autoctx)"
    by (simp add: parenting_ok)
  from LegacyIEffect_run_succeeds [OF assms(1,2,6) g p]
  obtain r where r: "LegacyIEffect_run w self autoctx = Inr r" ..
  from assms(1,2) r obtain e0 where e0: "e_name e0 = name self" "e_parent e0 = None"
    and a: "attach w self autoctx t e0 = Inr r"
    by (rule LegacyIEffect_run_attach)
  from attach_parent_priority(2) [OF a e0(2,1)] assms(3)
  have "e_parent (effect r) =
                 Some (e_id (case stack_parent_of self t of
                               Some sp \<Rightarrow> sp
                             | None \<Rightarrow> (case explicit_parent_of self autoctx of
                                           Some ep \<Rightarrow> ep
                                         | None \<Rightarrow> ce)))"
    by (simp add: py_or_def split: option.splits)
  with r show "\<exists>r. LegacyIEffect_run w self autoctx = Inr r
             \<and> e_parent (effect r) =
                 Some (e_id (case stack_parent_of self t of
                               Some sp \<Rightarrow> sp
                             | None \<Rightarrow> (case explicit_parent_of self autoctx of
                                           Some ep \<Rightarrow> ep
                                         | None \<Rightarrow> ce)))"
    by blast
next
  fix p tn
  assume h: "c_id t \<noteq> caster autoctx"
    and v: "parent self = Some p \<and> metavars autoctx p = Some (OtherValue tn)"
  from h assms(3,4) have g: "concentration_spells self autoctx t = Inr (Some ce)"
    by (simp add: concentration_spells_passes)
  from v have "parenting self autoctx = Inl (parent_error p tn)"
    by (simp add: parenting_def)
  with g assms(6) show "LegacyIEffect_run w self autoctx = Inl (parent_error p tn)"
    by (simp add: LegacyIEffect_run_attached [OF assms(1,2)] attach_parenting)
qed

lemma legacy_stacking_disambiguation:
  assumes "target autoctx = Some tgt" and "combatant tgt = Some t"
    and "LegacyIEffect_run w self autoctx = Inr r"
    and "stacking self" and "get_effect t (name self) \<noteq> None"
  shows "(\<exists>k\<ge>2. e_name (effect r) = stack_name (name self) k
            \<and> get_effect t (stack_name (name self) k) = None
            \<and> (\<forall>j. 2 \<le> j \<and> j < k \<longrightarrow> get_effect t (stack_name (name self) j) \<noteq> None))
       \<and> (e_name ` set (c_effects t) = {name self, name self @ '' x2'', name self @ '' x3''}
            \<longrightarrow> e_name (effect r) = name self @ '' x4'')
       \<and> (e_name ` set (c_effects t) = {name self}
            \<longrightarrow> e_name (effect r) = name self @ '' x2'')"
proof -
  from assms(1-3) obtain e0 where e0: "e_name e0 = name self"
    and a: "attach w self autoctx t e0 = Inr r"
    by (rule LegacyIEffect_run_attach)
  from a e0 assms(4,5) show ?thesis by (rule attach_stacking_name)
qed

lemma legacy_guard_before_stacking:
  assumes "target autoctx = Some tgt" and "combatant tgt = Some t"
    and "stacking self" and "concentration self" and "get_effect t (name self) \<noteq> None"
    and "c_id t = caster autoctx"
    and "conc_effect autoctx = Some ce" and "e_combatant ce = Some (caster autoctx)"
    and "resolve_duration w (duration self) = Inr d"
  shows "LegacyIEffect_run w self autoctx = Inl guard_error"
proof -
  from assms(4,6-8) have "concentration_spells self autoctx t = Inl guard_error"
    by (simp add: concentration_spells_raises)
  then show ?thesis
    using assms(9) by (simp add: LegacyIEffect_run_attached [OF assms(1,2)] attach_guard)
qed

end
